theory Spec2Isabelle
  imports Complex_Main "HOL-Library.AList" "HOL-Library.Sublist"
begin

section \<open>Data model (src/types)\<close>

text \<open>
  JavaScript numbers are modelled as mathematical reals (amounts, prices, scores, counts
  stored in \<open>number\<close> fields) and as integers (millisecond timestamps); IEEE rounding and
  \<open>NaN\<close> are not part of the model. The one place where the code produces \<open>Infinity\<close> on
  purpose (\<open>getTxIntervalMean\<close>) is modelled by \<open>None\<close>. Every read of \<open>Date.now()\<close>
  inside one synchronous call is the parameter \<open>now\<close>. Logging and the event bus have
  no influence on the state and are left out.
\<close>

record Transaction =
  tokenAddress :: string
  timestamp :: int
  buyerWallet :: string
  solAmount :: real
  txHash :: string

record RollingMetrics =
  txCount30s :: real
  txCount60s :: real
  txCount180s :: real
  txCountPrev60s :: real
  buyers5m :: real
  repeatBuyers :: real
  avgBuySize :: real
  buySizeStd :: real
  largestBuy :: real
  txIntervalMean :: "real option"
  txIntervalDelta :: bool
  txAcceleration :: real

datatype PositionStatus = StatusOpen | StatusPartial | StatusClosed

datatype ExitReason =
    profit_target_partial
  | profit_target_full
  | no_activity_60s
  | tx_decrease_twice
  | stagnation_after_spike
  | kill_switch_no_tx
  | kill_switch_whale
  | kill_switch_dev

record PaperPosition =
  id_p :: string
  tokenAddress_p :: string
  entryTimestamp :: int
  entryPrice :: real
  entryScore :: real
  positionSizeSOL :: real
  remainingSizeSOL :: real
  status :: PositionStatus
  partialExitTimestamp :: "int option"
  partialExitPrice :: "real option"
  exitTimestamp :: "int option"
  exitPrice :: "real option"
  exitReason :: "ExitReason option"
  maxUnrealizedPnL :: real
  realizedPnL :: real

section \<open>Configuration (CONFIG)\<close>

definition windows_short :: int where "windows_short = 30 * 1000"
definition windows_medium :: int where "windows_medium = 60 * 1000"
definition windows_long :: int where "windows_long = 180 * 1000"
definition windows_buyers :: int where "windows_buyers = 5 * 60 * 1000"

definition maxTokenAgeMinutes :: real where "maxTokenAgeMinutes = 20"
definition minBuyersAfter5Min :: nat where "minBuyersAfter5Min = 2"

definition filters_maxLargestBuy :: real where "filters_maxLargestBuy = 2.0"
definition filters_maxAvgBuySize :: real where "filters_maxAvgBuySize = 0.8"
definition filters_minAvgBuySize :: real where "filters_minAvgBuySize = 0.03"
definition filters_maxDevBuys :: nat where "filters_maxDevBuys = 1"
definition filters_maxMetadataEdits :: nat where "filters_maxMetadataEdits = 1"

definition signals_minBuyers5m :: real where "signals_minBuyers5m = 6"
definition signals_maxTxIntervalMean :: real where "signals_maxTxIntervalMean = 20"
definition signals_minAvgBuySize :: real where "signals_minAvgBuySize = 0.05"
definition signals_maxAvgBuySize :: real where "signals_maxAvgBuySize = 0.5"
definition signals_maxLargestBuy :: real where "signals_maxLargestBuy = 2.0"
definition signals_minTxCount60s :: real where "signals_minTxCount60s = 5"

definition entry_minScore :: real where "entry_minScore = 18"
definition entry_minTokenAgeMinutes :: real where "entry_minTokenAgeMinutes = 2"
definition entry_maxTokenAgeMinutes :: real where "entry_maxTokenAgeMinutes = 12"
definition entry_minMarketCapSOL :: real where "entry_minMarketCapSOL = 3000"
definition entry_maxMarketCapSOL :: real where "entry_maxMarketCapSOL = 15000"
definition entry_positionSizeSOL :: real where "entry_positionSizeSOL = 1.0"

definition exit_partialProfitPercent :: real where "exit_partialProfitPercent = 120"
definition exit_fullProfitPercent :: real where "exit_fullProfitPercent = 220"
definition exit_partialExitPercent :: real where "exit_partialExitPercent = 50"
definition exit_noActivitySeconds :: int where "exit_noActivitySeconds = 60"
definition exit_txDecreaseThreshold :: nat where "exit_txDecreaseThreshold = 2"

definition killSwitch_noTxSeconds :: int where "killSwitch_noTxSeconds = 60"
definition killSwitch_whaleBuyThreshold :: real where "killSwitch_whaleBuyThreshold = 3.0"

definition scoring_buyersWeight :: real where "scoring_buyersWeight = 2"
definition scoring_accelerationWeight :: real where "scoring_accelerationWeight = 3"
definition scoring_repeatBuyersWeight :: real where "scoring_repeatBuyersWeight = 2"
definition scoring_largestBuyPenalty :: real where "scoring_largestBuyPenalty = 5"
definition scoring_stagnationPenalty :: real where "scoring_stagnationPenalty = 10"

section \<open>MultiWindowBuffer (src/utils/ringBuffer.ts)\<close>

record MultiWindowBuffer =
  transactions :: "Transaction list"
  maxWindowMs :: int

definition newMultiWindowBuffer :: "int \<Rightarrow> MultiWindowBuffer" where
  "newMultiWindowBuffer w = \<lparr>transactions = [], maxWindowMs = w\<rparr>"

definition evictOld :: "MultiWindowBuffer \<Rightarrow> int \<Rightarrow> MultiWindowBuffer" where
  "evictOld b now =
     (let cutoff = now - maxWindowMs b
      in b\<lparr>transactions := filter (\<lambda>tx. timestamp tx \<ge> cutoff) (transactions b)\<rparr>)"

definition add :: "MultiWindowBuffer \<Rightarrow> Transaction \<Rightarrow> int \<Rightarrow> MultiWindowBuffer" where
  "add b tx now = evictOld (b\<lparr>transactions := transactions b @ [tx]\<rparr>) now"

definition getWindow :: "MultiWindowBuffer \<Rightarrow> int \<Rightarrow> int \<Rightarrow> Transaction list" where
  "getWindow b windowMs now =
     (let cutoff = now - windowMs
      in filter (\<lambda>tx. timestamp tx \<ge> cutoff) (transactions b))"

definition countWindow :: "MultiWindowBuffer \<Rightarrow> int \<Rightarrow> int \<Rightarrow> nat" where
  "countWindow b windowMs now = length (getWindow b windowMs now)"

definition getRange :: "MultiWindowBuffer \<Rightarrow> int \<Rightarrow> int \<Rightarrow> int \<Rightarrow> Transaction list" where
  "getRange b startMsAgo endMsAgo now =
     (let startTime = now - startMsAgo; endTime = now - endMsAgo
      in filter (\<lambda>tx. timestamp tx \<ge> startTime \<and> timestamp tx \<le> endTime) (transactions b))"

definition countRange :: "MultiWindowBuffer \<Rightarrow> int \<Rightarrow> int \<Rightarrow> int \<Rightarrow> nat" where
  "countRange b startMsAgo endMsAgo now = length (getRange b startMsAgo endMsAgo now)"

definition getUniqueBuyers :: "MultiWindowBuffer \<Rightarrow> int \<Rightarrow> int \<Rightarrow> string set" where
  "getUniqueBuyers b windowMs now = set (map buyerWallet (getWindow b windowMs now))"

text \<open>The \<open>Map\<close> of buy counts per wallet is an association list in insertion order.\<close>

definition getRepeatBuyers :: "MultiWindowBuffer \<Rightarrow> int \<Rightarrow> int \<Rightarrow> nat" where
  "getRepeatBuyers b windowMs now =
     (let txs = getWindow b windowMs now;
          buyerCounts = foldl (\<lambda>m tx. AList.update (buyerWallet tx)
                                 ((case map_of m (buyerWallet tx) of None \<Rightarrow> 0 | Some c \<Rightarrow> c) + (1::nat)) m)
                              [] txs
      in length (filter (\<lambda>c. c \<ge> 2) (map snd buyerCounts)))"

record BuySizeStats =
  avg :: real
  std :: real
  max_s :: real

definition getBuySizeStats :: "MultiWindowBuffer \<Rightarrow> int \<Rightarrow> int \<Rightarrow> BuySizeStats" where
  "getBuySizeStats b windowMs now =
     (let txs = getWindow b windowMs now
      in if length txs = 0 then \<lparr>avg = 0, std = 0, max_s = 0\<rparr>
         else
           let amounts = map solAmount txs;
               sum = foldl (+) 0 amounts;
               avg = sum / real (length amounts);
               mx = foldl max (hd amounts) (tl amounts);
               squaredDiffs = map (\<lambda>x. (x - avg) ^ 2) amounts;
               avgSquaredDiff = foldl (+) 0 squaredDiffs / real (length amounts);
               std = sqrt avgSquaredDiff
           in \<lparr>avg = avg, std = std, max_s = mx\<rparr>)"

text \<open>\<open>None\<close> stands for the \<open>Infinity\<close> returned when fewer than two entries are in the window.\<close>

definition getTxIntervalMean :: "MultiWindowBuffer \<Rightarrow> int \<Rightarrow> int \<Rightarrow> real option" where
  "getTxIntervalMean b windowMs now =
     (let txs = getWindow b windowMs now
      in if length txs < 2 then None
         else
           let sorted = sort_key timestamp txs;
               totalInterval = foldl (\<lambda>acc i. acc + (timestamp (sorted ! i) - timestamp (sorted ! (i - 1))))
                                 0 [1 ..< length sorted]
           in Some (real_of_int totalInterval / real (length sorted - 1) / 1000))"

definition getTxIntervalDelta :: "MultiWindowBuffer \<Rightarrow> int \<Rightarrow> bool" where
  "getTxIntervalDelta b now =
     (let recentTxs = getWindow b 60000 now
      in if length recentTxs < 3 then False
         else
           let sorted = sort_key timestamp recentTxs;
               n = length sorted;
               currentInterval = timestamp (sorted ! (n - 1)) - timestamp (sorted ! (n - 2));
               previousInterval = timestamp (sorted ! (n - 2)) - timestamp (sorted ! (n - 3))
           in currentInterval < previousInterval)"

section \<open>TokenTracker (src/core/tokenTracker.ts)\<close>

record TokenTracker =
  tokenAddress_tr :: string
  firstSeenTimestamp :: int
  buffer :: MultiWindowBuffer
  uniqueBuyers :: "string set"
  dropped :: bool
  dropReason :: "string option"
  metadataEditCount :: nat
  devWallet :: "string option"
  devBuyCount :: nat
  lastTxTimestamp :: int

text \<open>
  \<open>!this._devWallet\<close> is true for \<open>undefined\<close> and for the empty string.
\<close>

definition addTransaction :: "TokenTracker \<Rightarrow> Transaction \<Rightarrow> int \<Rightarrow> TokenTracker" where
  "addTransaction t tx now =
     (if dropped t then t
      else
        let t1 = t\<lparr>buffer := add (buffer t) tx now,
                   uniqueBuyers := insert (buyerWallet tx) (uniqueBuyers t),
                   lastTxTimestamp := timestamp tx\<rparr>
        in if devWallet t1 = None \<or> devWallet t1 = Some []
           then t1\<lparr>devWallet := Some (buyerWallet tx), devBuyCount := 1\<rparr>
           else if Some (buyerWallet tx) = devWallet t1
           then t1\<lparr>devBuyCount := devBuyCount t1 + 1\<rparr>
           else t1)"

definition newTokenTracker :: "string \<Rightarrow> Transaction \<Rightarrow> int \<Rightarrow> TokenTracker" where
  "newTokenTracker addr firstTx now =
     addTransaction
       \<lparr>tokenAddress_tr = addr, firstSeenTimestamp = timestamp firstTx,
        buffer = newMultiWindowBuffer windows_buyers, uniqueBuyers = {},
        dropped = False, dropReason = None, metadataEditCount = 0,
        devWallet = None, devBuyCount = 0, lastTxTimestamp = timestamp firstTx\<rparr>
       firstTx now"

definition recordMetadataEdit :: "TokenTracker \<Rightarrow> TokenTracker" where
  "recordMetadataEdit t = t\<lparr>metadataEditCount := metadataEditCount t + 1\<rparr>"

definition getAgeMs :: "TokenTracker \<Rightarrow> int \<Rightarrow> int" where
  "getAgeMs t now = now - firstSeenTimestamp t"

definition getAgeMinutes :: "TokenTracker \<Rightarrow> int \<Rightarrow> real" where
  "getAgeMinutes t now = real_of_int (getAgeMs t now) / (60 * 1000)"

definition isExpired :: "TokenTracker \<Rightarrow> int \<Rightarrow> bool" where
  "isExpired t now = (getAgeMinutes t now > maxTokenAgeMinutes)"

definition shouldDropInactivity :: "TokenTracker \<Rightarrow> int \<Rightarrow> bool" where
  "shouldDropInactivity t now =
     (if getAgeMinutes t now \<ge> 5 \<and> card (uniqueBuyers t) < minBuyersAfter5Min then True else False)"

definition drop_t :: "TokenTracker \<Rightarrow> string \<Rightarrow> TokenTracker" where
  "drop_t t reason =
     (if \<not> dropped t then t\<lparr>dropped := True, dropReason := Some reason\<rparr> else t)"

definition calculateMetrics :: "TokenTracker \<Rightarrow> int \<Rightarrow> RollingMetrics" where
  "calculateMetrics t now =
     (let txCount30s = real (countWindow (buffer t) windows_short now);
          txCount60s = real (countWindow (buffer t) windows_medium now);
          txCount180s = real (countWindow (buffer t) windows_long now);
          txCountPrev60s = real (countRange (buffer t) 120000 60000 now);
          buyers5m = real (card (getUniqueBuyers (buffer t) windows_buyers now));
          repeatBuyers = real (getRepeatBuyers (buffer t) windows_buyers now);
          sizeStats = getBuySizeStats (buffer t) windows_long now;
          txIntervalMean = getTxIntervalMean (buffer t) windows_medium now;
          txIntervalDelta = getTxIntervalDelta (buffer t) now;
          txAcceleration = txCount60s - txCountPrev60s
      in \<lparr>txCount30s = txCount30s, txCount60s = txCount60s, txCount180s = txCount180s,
          txCountPrev60s = txCountPrev60s, buyers5m = buyers5m, repeatBuyers = repeatBuyers,
          avgBuySize = avg sizeStats, buySizeStd = std sizeStats, largestBuy = max_s sizeStats,
          txIntervalMean = txIntervalMean, txIntervalDelta = txIntervalDelta,
          txAcceleration = txAcceleration\<rparr>)"

section \<open>Number formatting\<close>

text \<open>
  \<open>Number.prototype.toFixed\<close> as ECMAScript defines it for magnitudes below \<open>10^21\<close>:
  the sign is printed when the number is negative, the magnitude is rounded to the nearest
  multiple of \<open>10^-f\<close> (the larger one on a tie), and the digits are padded with zeros so
  that at least one digit stands before the point.
\<close>

definition digitChar :: "nat \<Rightarrow> char" where
  "digitChar d = ''0123456789'' ! d"

fun natToString :: "nat \<Rightarrow> string" where
  "natToString n = (if n < 10 then [digitChar n] else natToString (n div 10) @ [digitChar (n mod 10)])"

declare natToString.simps [simp del]

definition toFixed :: "real \<Rightarrow> nat \<Rightarrow> string" where
  "toFixed x f =
     (let s = (if x < 0 then ''-'' else []);
          a = \<bar>x\<bar>;
          n = nat \<lfloor>a * 10 ^ f + 1 / 2\<rfloor>;
          m = natToString n
      in if f = 0 then s @ m
         else
           let m = (if length m \<le> f then replicate (f + 1 - length m) (CHR ''0'') @ m else m);
               k = length m
           in s @ take (k - f) m @ ''.'' @ drop (k - f) m)"

text \<open>\<open>Array.prototype.join\<close>.\<close>

fun join :: "string \<Rightarrow> string list \<Rightarrow> string" where
  "join sep [] = []"
| "join sep [x] = x"
| "join sep (x # y # ys) = x @ sep @ join sep (y # ys)"

section \<open>Hard filters (src/core/filters.ts)\<close>

text \<open>
  The \<open>details\<close> field of the result only echoes the inputs and is left out. The
  thresholds printed inside the messages are the renderings of the \<open>CONFIG.filters\<close>
  constants (\<open>2\<close>, \<open>0.8\<close>, \<open>0.03\<close>, \<open>1\<close>, \<open>1\<close>).
\<close>

record FilterResult =
  passed :: bool
  reason_f :: "string option"

definition evaluateFilters :: "TokenTracker \<Rightarrow> RollingMetrics \<Rightarrow> FilterResult" where
  "evaluateFilters tracker metrics =
     (let reasons = [];
          reasons = (if largestBuy metrics > filters_maxLargestBuy
                     then reasons @ [''largest_buy ('' @ toFixed (largestBuy metrics) 3 @ '' SOL) > 2 SOL'']
                     else reasons);
          reasons = (if avgBuySize metrics > filters_maxAvgBuySize
                     then reasons @ [''avg_buy_size ('' @ toFixed (avgBuySize metrics) 3 @ '' SOL) > 0.8 SOL'']
                     else reasons);
          reasons = (if avgBuySize metrics > 0 \<and> avgBuySize metrics < filters_minAvgBuySize
                     then reasons @ [''avg_buy_size ('' @ toFixed (avgBuySize metrics) 3 @ '' SOL) < 0.03 SOL'']
                     else reasons);
          stdThreshold = 0.5;
          reasons = (if buySizeStd metrics > stdThreshold
                     then reasons @ [''buy_size_std ('' @ toFixed (buySizeStd metrics) 3 @ '') indicates whale noise'']
                     else reasons);
          reasons = (if devBuyCount tracker > filters_maxDevBuys
                     then reasons @ [''dev wallet bought '' @ natToString (devBuyCount tracker) @ '' times (max: 1)'']
                     else reasons);
          reasons = (if metadataEditCount tracker > filters_maxMetadataEdits
                     then reasons @ [''metadata edited '' @ natToString (metadataEditCount tracker) @ '' times (max: 1)'']
                     else reasons);
          passed = (length reasons = 0)
      in \<lparr>passed = passed, reason_f = (if passed then None else Some (join ''; '' reasons))\<rparr>)"

record QuickFilterResult =
  pass :: bool
  reason_q :: "string option"

definition quickFilterTransaction :: "real \<Rightarrow> QuickFilterResult" where
  "quickFilterTransaction amount =
     (if amount > filters_maxLargestBuy
      then \<lparr>pass = False, reason_q = Some (''single_buy_too_large: '' @ toFixed amount 3 @ '' SOL'')\<rparr>
      else \<lparr>pass = True, reason_q = None\<rparr>)"

section \<open>Signal conditions (src/core/signals.ts)\<close>

text \<open>The three \<open>details\<close> fields only echo the metrics and are left out.\<close>

record SignalEvaluation =
  easPassed :: bool
  lsfPassed :: bool
  mcPassed :: bool
  allPassed :: bool

definition evaluateSignals :: "RollingMetrics \<Rightarrow> SignalEvaluation" where
  "evaluateSignals metrics =
     (let easBuyers = (buyers5m metrics \<ge> signals_minBuyers5m);
          easInterval = (case txIntervalMean metrics of None \<Rightarrow> False
                         | Some v \<Rightarrow> v < signals_maxTxIntervalMean);
          easAcceleration = (txAcceleration metrics > 0);
          easPassed = (easBuyers \<and> easInterval \<and> easAcceleration);
          lsfAvgMin = (avgBuySize metrics \<ge> signals_minAvgBuySize);
          lsfAvgMax = (avgBuySize metrics \<le> signals_maxAvgBuySize);
          lsfStd = (buySizeStd metrics < 0.3);
          lsfLargest = (largestBuy metrics \<le> signals_maxLargestBuy);
          lsfPassed = (lsfAvgMin \<and> lsfAvgMax \<and> lsfStd \<and> lsfLargest);
          mcTxCount = (txCount60s metrics \<ge> signals_minTxCount60s);
          mcIntervalDelta = txIntervalDelta metrics;
          mcPassed = (mcTxCount \<and> mcIntervalDelta);
          allPassed = (easPassed \<and> lsfPassed \<and> mcPassed)
      in \<lparr>easPassed = easPassed, lsfPassed = lsfPassed, mcPassed = mcPassed, allPassed = allPassed\<rparr>)"

section \<open>Scoring (src/core/scoring.ts)\<close>

record TokenScore =
  tokenAddress_s :: string
  score :: real
  timestamp_s :: int
  buyersComponent :: real
  accelerationComponent :: real
  repeatBuyersComponent :: real
  largestBuyPenalty :: real
  stagnationPenalty :: real

definition calculateScore :: "string \<Rightarrow> RollingMetrics \<Rightarrow> int \<Rightarrow> TokenScore" where
  "calculateScore addr metrics now =
     (let buyersComponent = buyers5m metrics * scoring_buyersWeight;
          accelerationComponent = txAcceleration metrics * scoring_accelerationWeight;
          repeatBuyersComponent = repeatBuyers metrics * scoring_repeatBuyersWeight;
          largestBuyPenalty = (if largestBuy metrics > 1.0 then scoring_largestBuyPenalty else 0);
          stagnationPenalty = (if txCount60s metrics = 0 then scoring_stagnationPenalty else 0);
          score = buyersComponent + accelerationComponent + repeatBuyersComponent
                  - largestBuyPenalty - stagnationPenalty
      in \<lparr>tokenAddress_s = addr, score = max 0 score, timestamp_s = now,
          buyersComponent = buyersComponent, accelerationComponent = accelerationComponent,
          repeatBuyersComponent = repeatBuyersComponent,
          largestBuyPenalty = largestBuyPenalty, stagnationPenalty = stagnationPenalty\<rparr>)"

section \<open>PositionManager (src/trading/position.ts)\<close>

text \<open>
  The \<open>positions\<close> map is an association list in insertion order (the code iterates over
  it); \<open>tokenToPosition\<close> is only looked up. A position object is shared by reference
  between the map and the callers that hold it; in the model every mutation goes through
  the map entry of the position's id, and a caller's \<open>position\<close> argument carries the
  field values of that object at the time of the call. The id produced by
  \<open>generatePositionId\<close> (clock and random bytes) is the parameter \<open>newId\<close>. The
  quotient by the entry price is the quotient of reals; it is the code's for a nonzero
  entry price.
\<close>

record PositionManager =
  positions :: "(string \<times> PaperPosition) list"
  closedPositions :: "PaperPosition list"
  tokenToPosition :: "string \<rightharpoonup> string"

definition newPositionManager :: PositionManager where
  "newPositionManager = \<lparr>positions = [], closedPositions = [], tokenToPosition = Map.empty\<rparr>"

definition openPosition ::
  "PositionManager \<Rightarrow> string \<Rightarrow> real \<Rightarrow> real \<Rightarrow> string \<Rightarrow> int \<Rightarrow> PaperPosition \<times> PositionManager" where
  "openPosition pm tokenAddr price scr newId now =
     (let existing =
            (case tokenToPosition pm tokenAddr of
               None \<Rightarrow> None
             | Some existingId \<Rightarrow>
                 (case map_of (positions pm) existingId of
                    None \<Rightarrow> None
                  | Some e \<Rightarrow> if status e \<noteq> StatusClosed then Some e else None))
      in case existing of
           Some e \<Rightarrow> (e, pm)
         | None \<Rightarrow>
             let position =
                   \<lparr>id_p = newId, tokenAddress_p = tokenAddr, entryTimestamp = now,
                    entryPrice = price, entryScore = scr,
                    positionSizeSOL = entry_positionSizeSOL,
                    remainingSizeSOL = entry_positionSizeSOL,
                    status = StatusOpen,
                    partialExitTimestamp = None, partialExitPrice = None,
                    exitTimestamp = None, exitPrice = None, exitReason = None,
                    maxUnrealizedPnL = 0, realizedPnL = 0\<rparr>
             in (position,
                 pm\<lparr>positions := AList.update (id_p position) position (positions pm),
                    tokenToPosition := (tokenToPosition pm)(tokenAddr \<mapsto> id_p position)\<rparr>))"

definition executePartialExit :: "PositionManager \<Rightarrow> string \<Rightarrow> real \<Rightarrow> int \<Rightarrow> PositionManager" where
  "executePartialExit pm positionId currentPrice now =
     (case map_of (positions pm) positionId of
        None \<Rightarrow> pm
      | Some position \<Rightarrow>
          if status position = StatusClosed then pm
          else
            let exitPercent = exit_partialExitPercent / 100;
                exitAmount = positionSizeSOL position * exitPercent;
                priceChange = (currentPrice - entryPrice position) / entryPrice position;
                pnl = exitAmount * priceChange;
                position = position\<lparr>remainingSizeSOL := remainingSizeSOL position - exitAmount,
                                     partialExitTimestamp := Some now,
                                     partialExitPrice := Some currentPrice,
                                     realizedPnL := realizedPnL position + pnl,
                                     status := StatusPartial\<rparr>
            in pm\<lparr>positions := AList.update positionId position (positions pm)\<rparr>)"

definition closePosition ::
  "PositionManager \<Rightarrow> string \<Rightarrow> real \<Rightarrow> ExitReason \<Rightarrow> int \<Rightarrow> PositionManager" where
  "closePosition pm positionId currentPrice rsn now =
     (case map_of (positions pm) positionId of
        None \<Rightarrow> pm
      | Some position \<Rightarrow>
          if status position = StatusClosed then pm
          else
            let priceChange = (currentPrice - entryPrice position) / entryPrice position;
                pnl = remainingSizeSOL position * priceChange;
                position = position\<lparr>remainingSizeSOL := 0,
                                     exitTimestamp := Some now,
                                     exitPrice := Some currentPrice,
                                     exitReason := Some rsn,
                                     realizedPnL := realizedPnL position + pnl,
                                     status := StatusClosed\<rparr>
            in pm\<lparr>closedPositions := closedPositions pm @ [position],
                  positions := AList.delete positionId (positions pm),
                  tokenToPosition := (tokenToPosition pm)(tokenAddress_p position := None)\<rparr>)"

definition updateUnrealizedPnL :: "PositionManager \<Rightarrow> string \<Rightarrow> real \<Rightarrow> PositionManager" where
  "updateUnrealizedPnL pm positionId currentPrice =
     (case map_of (positions pm) positionId of
        None \<Rightarrow> pm
      | Some position \<Rightarrow>
          if status position = StatusClosed then pm
          else
            let priceChange = (currentPrice - entryPrice position) / entryPrice position;
                unrealizedPct = priceChange * 100
            in if unrealizedPct > maxUnrealizedPnL position
               then pm\<lparr>positions := AList.update positionId
                                       (position\<lparr>maxUnrealizedPnL := unrealizedPct\<rparr>) (positions pm)\<rparr>
               else pm)"

text \<open>\<open>!positionId\<close> holds for a missing entry and for the empty string.\<close>

definition getPositionByToken :: "PositionManager \<Rightarrow> string \<Rightarrow> PaperPosition option" where
  "getPositionByToken pm tokenAddr =
     (case tokenToPosition pm tokenAddr of
        None \<Rightarrow> None
      | Some positionId \<Rightarrow> if positionId = [] then None else map_of (positions pm) positionId)"

definition getOpenPositions :: "PositionManager \<Rightarrow> PaperPosition list" where
  "getOpenPositions pm = filter (\<lambda>p. status p \<noteq> StatusClosed) (map snd (positions pm))"

definition getPosition :: "PositionManager \<Rightarrow> string \<Rightarrow> PaperPosition option" where
  "getPosition pm positionId = map_of (positions pm) positionId"

definition getClosedPositions :: "PositionManager \<Rightarrow> PaperPosition list" where
  "getClosedPositions pm = closedPositions pm"

definition hasOpenPosition :: "PositionManager \<Rightarrow> string \<Rightarrow> bool" where
  "hasOpenPosition pm tokenAddr =
     (case getPositionByToken pm tokenAddr of
        None \<Rightarrow> False
      | Some position \<Rightarrow> status position \<noteq> StatusClosed)"

section \<open>ExitEngine (src/trading/exitEngine.ts)\<close>

record ExitState =
  positionId_es :: string
  consecutiveTxDecreases :: nat
  lastTxCount60s :: real
  spikeDetected :: bool
  postSpikeTxCount :: "real option"

record ExitEvaluation =
  shouldPartialExit :: bool
  shouldFullExit :: bool
  reason :: "ExitReason option"

definition ExitEngine_initPosition ::
  "(string \<rightharpoonup> ExitState) \<Rightarrow> string \<Rightarrow> real \<Rightarrow> (string \<rightharpoonup> ExitState)" where
  "ExitEngine_initPosition es positionId initialTxCount =
     es(positionId \<mapsto> \<lparr>positionId_es = positionId, consecutiveTxDecreases = 0,
                        lastTxCount60s = initialTxCount, spikeDetected = False,
                        postSpikeTxCount = None\<rparr>)"

text \<open>
  \<open>evaluateExit\<close> returns the evaluation together with the exit-state map and the position
  manager after its side effects. \<open>state.postSpikeTxCount\<close> is truthy when it is set and
  not zero.
\<close>

definition evaluateExit ::
  "(string \<rightharpoonup> ExitState) \<Rightarrow> PositionManager \<Rightarrow> PaperPosition \<Rightarrow> real \<Rightarrow> RollingMetrics \<Rightarrow>
   TokenTracker \<Rightarrow> int \<Rightarrow> ExitEvaluation \<times> (string \<rightharpoonup> ExitState) \<times> PositionManager" where
  "evaluateExit es pm position currentPrice metrics tracker now =
     (case es (id_p position) of
        None \<Rightarrow>
          (\<lparr>shouldPartialExit = False, shouldFullExit = False, reason = None\<rparr>,
           ExitEngine_initPosition es (id_p position) (txCount60s metrics), pm)
      | Some state \<Rightarrow>
          let pnlPercent = ((currentPrice - entryPrice position) / entryPrice position) * 100;
              pm = updateUnrealizedPnL pm (id_p position) currentPrice;
              shouldPartial = (status position = StatusOpen \<and> pnlPercent \<ge> exit_partialProfitPercent);
              (shouldFull, exitRsn) = (False, None);
              (shouldFull, exitRsn) =
                 (if pnlPercent \<ge> exit_fullProfitPercent then (True, Some profit_target_full)
                  else (shouldFull, exitRsn));
              timeSinceLastTx = now - lastTxTimestamp tracker;
              (shouldFull, exitRsn) =
                 (if timeSinceLastTx \<ge> exit_noActivitySeconds * 1000 then (True, Some no_activity_60s)
                  else (shouldFull, exitRsn));
              (state, shouldFull, exitRsn) =
                 (if txCount60s metrics < lastTxCount60s state then
                    let state = state\<lparr>consecutiveTxDecreases := consecutiveTxDecreases state + 1\<rparr>
                    in if consecutiveTxDecreases state \<ge> exit_txDecreaseThreshold
                       then (state, True, Some tx_decrease_twice)
                       else (state, shouldFull, exitRsn)
                  else if txCount60s metrics > lastTxCount60s state then
                    let state = state\<lparr>consecutiveTxDecreases := 0\<rparr>
                    in if txCount60s metrics > lastTxCount60s state * 1.5
                       then (state\<lparr>spikeDetected := True,
                                    postSpikeTxCount := Some (txCount60s metrics)\<rparr>,
                             shouldFull, exitRsn)
                       else (state, shouldFull, exitRsn)
                  else (state, shouldFull, exitRsn));
              (shouldFull, exitRsn) =
                 (case postSpikeTxCount state of
                    None \<Rightarrow> (shouldFull, exitRsn)
                  | Some peak \<Rightarrow>
                      if spikeDetected state \<and> peak \<noteq> 0 \<and> txCount60s metrics < peak * 0.5
                      then (True, Some stagnation_after_spike)
                      else (shouldFull, exitRsn));
              state = state\<lparr>lastTxCount60s := txCount60s metrics\<rparr>
          in (\<lparr>shouldPartialExit = shouldPartial, shouldFullExit = shouldFull, reason = exitRsn\<rparr>,
              es(id_p position \<mapsto> state), pm))"

definition ExitEngine_cleanup :: "(string \<rightharpoonup> ExitState) \<Rightarrow> string \<Rightarrow> (string \<rightharpoonup> ExitState)" where
  "ExitEngine_cleanup es positionId = es(positionId := None)"

definition executeExit ::
  "(string \<rightharpoonup> ExitState) \<Rightarrow> PositionManager \<Rightarrow> PaperPosition \<Rightarrow> real \<Rightarrow> ExitEvaluation \<Rightarrow> int \<Rightarrow>
   (string \<rightharpoonup> ExitState) \<times> PositionManager" where
  "executeExit es pm position currentPrice evaluation now =
     (if shouldPartialExit evaluation \<and> status position = StatusOpen then
        let pm = executePartialExit pm (id_p position) currentPrice now
        in case getPosition pm (id_p position) of
             None \<Rightarrow> (es, pm)
           | Some updatedPosition \<Rightarrow>
               (case reason evaluation of
                  Some rsn \<Rightarrow>
                    if shouldFullExit evaluation
                    then (ExitEngine_cleanup es (id_p position),
                          closePosition pm (id_p position) currentPrice rsn now)
                    else (es, pm)
                | None \<Rightarrow> (es, pm))
      else
        (case reason evaluation of
           Some rsn \<Rightarrow>
             if shouldFullExit evaluation
             then (ExitEngine_cleanup es (id_p position),
                   closePosition pm (id_p position) currentPrice rsn now)
             else (es, pm)
         | None \<Rightarrow> (es, pm)))"

section \<open>KillSwitch (src/trading/killSwitch.ts)\<close>

record KillState =
  positionId_ks :: string
  lastActivityTimestamp :: int

definition KillSwitch_initPosition ::
  "(string \<rightharpoonup> KillState) \<Rightarrow> string \<Rightarrow> int \<Rightarrow> (string \<rightharpoonup> KillState)" where
  "KillSwitch_initPosition ks positionId now =
     ks(positionId \<mapsto> \<lparr>positionId_ks = positionId, lastActivityTimestamp = now\<rparr>)"

definition KillSwitch_cleanup :: "(string \<rightharpoonup> KillState) \<Rightarrow> string \<Rightarrow> (string \<rightharpoonup> KillState)" where
  "KillSwitch_cleanup ks positionId = ks(positionId := None)"

definition trigger ::
  "(string \<rightharpoonup> KillState) \<Rightarrow> PositionManager \<Rightarrow> PaperPosition \<Rightarrow> real \<Rightarrow> ExitReason \<Rightarrow> int \<Rightarrow>
   (string \<rightharpoonup> KillState) \<times> PositionManager" where
  "trigger ks pm position currentPrice rsn now =
     (KillSwitch_cleanup ks (id_p position),
      closePosition pm (id_p position) currentPrice rsn now)"

text \<open>
  \<open>check\<close> returns whether the kill switch fired, with the kill-state map and the position
  manager after its side effects; \<open>latestTx\<close> is optional. \<open>tracker.devWallet\<close> is truthy
  when it is set and not the empty string.
\<close>

definition check ::
  "(string \<rightharpoonup> KillState) \<Rightarrow> PositionManager \<Rightarrow> PaperPosition \<Rightarrow> TokenTracker \<Rightarrow> real \<Rightarrow>
   Transaction option \<Rightarrow> int \<Rightarrow> bool \<times> (string \<rightharpoonup> KillState) \<times> PositionManager" where
  "check ks pm position tracker currentPrice latestTx now =
     (case ks (id_p position) of
        None \<Rightarrow> (False, KillSwitch_initPosition ks (id_p position) now, pm)
      | Some state \<Rightarrow>
          let timeSinceLastTx = now - lastTxTimestamp tracker
          in if timeSinceLastTx \<ge> killSwitch_noTxSeconds * 1000 then
               let (ks, pm) = trigger ks pm position currentPrice kill_switch_no_tx now
               in (True, ks, pm)
             else
               (case latestTx of
                  None \<Rightarrow> (False, ks, pm)
                | Some tx \<Rightarrow>
                    let ks = ks(id_p position \<mapsto> state\<lparr>lastActivityTimestamp := timestamp tx\<rparr>)
                    in if solAmount tx > killSwitch_whaleBuyThreshold then
                         let (ks, pm) = trigger ks pm position currentPrice kill_switch_whale now
                         in (True, ks, pm)
                       else if devWallet tracker \<noteq> None \<and> devWallet tracker \<noteq> Some []
                               \<and> Some (buyerWallet tx) = devWallet tracker
                               \<and> devBuyCount tracker > 1 then
                         let (ks, pm) = trigger ks pm position currentPrice kill_switch_dev now
                         in (True, ks, pm)
                       else (False, ks, pm)))"

section \<open>EntryEngine (src/trading/entryEngine.ts)\<close>

text \<open>
  The rejection reason of \<open>evaluateEntry\<close> is a string built from numbers in the code; the
  model keeps its kind and the values printed in it.
\<close>

datatype EntryRejection =
    position_already_exists
  | token_dropped "string option"
  | score_too_low real
  | too_young real
  | too_old real
  | signals_failed "string list"
  | mc_out_of_range real

record EntryEvaluation =
  eligible :: bool
  reason_e :: "EntryRejection option"

record MissedRunner =
  tokenAddress_m :: string
  timestamp_m :: int
  score_m :: real
  reason_m :: EntryRejection

definition estimateMarketCap :: "RollingMetrics \<Rightarrow> real" where
  "estimateMarketCap metrics =
     (let totalVolume = buyers5m metrics * avgBuySize metrics;
          multiplier = 30
      in totalVolume * multiplier)"

definition calculateEntryPrice :: "RollingMetrics \<Rightarrow> real" where
  "calculateEntryPrice metrics = avgBuySize metrics"

definition evaluateEntry ::
  "PositionManager \<Rightarrow> TokenTracker \<Rightarrow> TokenScore \<Rightarrow> SignalEvaluation \<Rightarrow> RollingMetrics \<Rightarrow> int \<Rightarrow>
   EntryEvaluation" where
  "evaluateEntry pm tracker scr signalEval metrics now =
     (if hasOpenPosition pm (tokenAddress_tr tracker)
      then \<lparr>eligible = False, reason_e = Some position_already_exists\<rparr>
      else if dropped tracker
      then \<lparr>eligible = False, reason_e = Some (token_dropped (dropReason tracker))\<rparr>
      else if score scr < entry_minScore
      then \<lparr>eligible = False, reason_e = Some (score_too_low (score scr))\<rparr>
      else
        let ageMinutes = getAgeMinutes tracker now
        in if ageMinutes < entry_minTokenAgeMinutes
           then \<lparr>eligible = False, reason_e = Some (too_young ageMinutes)\<rparr>
           else if ageMinutes > entry_maxTokenAgeMinutes
           then \<lparr>eligible = False, reason_e = Some (too_old ageMinutes)\<rparr>
           else if \<not> allPassed signalEval
           then
             let failedSignals = [];
                 failedSignals = (if \<not> easPassed signalEval then failedSignals @ [''EAS''] else failedSignals);
                 failedSignals = (if \<not> lsfPassed signalEval then failedSignals @ [''LSF''] else failedSignals);
                 failedSignals = (if \<not> mcPassed signalEval then failedSignals @ [''MC''] else failedSignals)
             in \<lparr>eligible = False, reason_e = Some (signals_failed failedSignals)\<rparr>
           else
             let estimatedMC = estimateMarketCap metrics
             in if estimatedMC < entry_minMarketCapSOL \<or> estimatedMC > entry_maxMarketCapSOL
                then \<lparr>eligible = False, reason_e = Some (mc_out_of_range estimatedMC)\<rparr>
                else \<lparr>eligible = True, reason_e = None\<rparr>)"

definition trackMissedRunner ::
  "MissedRunner list \<Rightarrow> string \<Rightarrow> real \<Rightarrow> EntryRejection \<Rightarrow> int \<Rightarrow> MissedRunner list" where
  "trackMissedRunner mrs addr scr rsn now =
     (let mrs = mrs @ [\<lparr>tokenAddress_m = addr, timestamp_m = now, score_m = scr, reason_m = rsn\<rparr>]
      in if length mrs > 1000 then drop (length mrs - 1000) mrs else mrs)"

section \<open>SignalEngine (src/core/signals.ts, second part) and TokenRegistry\<close>

text \<open>
  The state of the orchestrator and of the components it owns: the registry's tracker map
  (in insertion order), the position manager shared by the entry engine, the exit engine
  and the kill switch, the two auxiliary state maps, the missed-runner list and the
  processed-event counter.
\<close>

record SignalEngine =
  tokenRegistry :: "(string \<times> TokenTracker) list"
  positionManager :: PositionManager
  exitStates :: "string \<rightharpoonup> ExitState"
  killStates :: "string \<rightharpoonup> KillState"
  missedRunners :: "MissedRunner list"
  processedTxCount :: nat

definition newSignalEngine :: SignalEngine where
  "newSignalEngine =
     \<lparr>tokenRegistry = [], positionManager = newPositionManager, exitStates = Map.empty,
      killStates = Map.empty, missedRunners = [], processedTxCount = 0\<rparr>"

definition TokenRegistry_processTransaction ::
  "(string \<times> TokenTracker) list \<Rightarrow> Transaction \<Rightarrow> int \<Rightarrow> TokenTracker \<times> (string \<times> TokenTracker) list" where
  "TokenRegistry_processTransaction trackers tx now =
     (case map_of trackers (tokenAddress tx) of
        None \<Rightarrow>
          let tracker = newTokenTracker (tokenAddress tx) tx now
          in (tracker, AList.update (tokenAddress tx) tracker trackers)
      | Some tracker \<Rightarrow>
          let tracker = addTransaction tracker tx now
          in (tracker, AList.update (tokenAddress tx) tracker trackers))"

definition getTracker :: "(string \<times> TokenTracker) list \<Rightarrow> string \<Rightarrow> TokenTracker option" where
  "getTracker trackers addr = map_of trackers addr"

definition getActiveTrackers :: "(string \<times> TokenTracker) list \<Rightarrow> int \<Rightarrow> TokenTracker list" where
  "getActiveTrackers trackers now =
     filter (\<lambda>t. \<not> dropped t \<and> \<not> isExpired t now) (map snd trackers)"

definition tryEntry ::
  "SignalEngine \<Rightarrow> TokenTracker \<Rightarrow> TokenScore \<Rightarrow> SignalEvaluation \<Rightarrow> RollingMetrics \<Rightarrow> string \<Rightarrow> int \<Rightarrow>
   bool \<times> SignalEngine" where
  "tryEntry st tracker scr signalEval metrics newId now =
     (let evaluation = evaluateEntry (positionManager st) tracker scr signalEval metrics now
      in if \<not> eligible evaluation then
           (case reason_e evaluation of
              Some rsn \<Rightarrow>
                if score scr \<ge> entry_minScore \<and> rsn \<noteq> position_already_exists
                then (False, st\<lparr>missedRunners :=
                                   trackMissedRunner (missedRunners st) (tokenAddress_tr tracker) (score scr) rsn now\<rparr>)
                else (False, st)
            | None \<Rightarrow> (False, st))
         else
           let price = calculateEntryPrice metrics;
               (position, pm) = openPosition (positionManager st) (tokenAddress_tr tracker) price (score scr) newId now
           in (True,
               st\<lparr>positionManager := pm,
                  exitStates := ExitEngine_initPosition (exitStates st) (id_p position) (txCount60s metrics),
                  killStates := KillSwitch_initPosition (killStates st) (id_p position) now\<rparr>))"

text \<open>
  A tracker object is shared between the registry and the caller that holds it; dropping
  it is written back to the registry entry of its token address.
\<close>

definition evaluateForEntry :: "SignalEngine \<Rightarrow> TokenTracker \<Rightarrow> string \<Rightarrow> int \<Rightarrow> SignalEngine" where
  "evaluateForEntry st tracker newId now =
     (let metrics = calculateMetrics tracker now;
          filterResult = evaluateFilters tracker metrics
      in if \<not> passed filterResult then
           (case reason_f filterResult of
              Some rsn \<Rightarrow>
                st\<lparr>tokenRegistry := AList.update (tokenAddress_tr tracker) (drop_t tracker rsn) (tokenRegistry st)\<rparr>
            | None \<Rightarrow> st)
         else
           let signalEval = evaluateSignals metrics;
               scr = calculateScore (tokenAddress_tr tracker) metrics now
           in snd (tryEntry st tracker scr signalEval metrics newId now))"

definition monitorPosition ::
  "SignalEngine \<Rightarrow> PaperPosition \<Rightarrow> TokenTracker \<Rightarrow> Transaction \<Rightarrow> int \<Rightarrow> SignalEngine" where
  "monitorPosition st position tracker latestTx now =
     (let metrics = calculateMetrics tracker now;
          currentPrice = avgBuySize metrics;
          (fired, ks, pm) = check (killStates st) (positionManager st) position tracker currentPrice
                              (Some latestTx) now;
          st = st\<lparr>killStates := ks, positionManager := pm\<rparr>
      in if fired then st
         else
           let (exitEval, es, pm) = evaluateExit (exitStates st) (positionManager st) position
                                      currentPrice metrics tracker now;
               st = st\<lparr>exitStates := es, positionManager := pm\<rparr>
           in if shouldPartialExit exitEval \<or> shouldFullExit exitEval then
                let (es, pm) = executeExit (exitStates st) (positionManager st) position
                                 currentPrice exitEval now
                in st\<lparr>exitStates := es, positionManager := pm\<rparr>
              else st)"

definition processTransaction :: "SignalEngine \<Rightarrow> Transaction \<Rightarrow> string \<Rightarrow> int \<Rightarrow> SignalEngine" where
  "processTransaction st tx newId now =
     (let st = st\<lparr>processedTxCount := processedTxCount st + 1\<rparr>;
          quickFilter = quickFilterTransaction (solAmount tx)
      in if \<not> pass quickFilter then st
         else
           let (tracker, trackers) = TokenRegistry_processTransaction (tokenRegistry st) tx now;
               st = st\<lparr>tokenRegistry := trackers\<rparr>
           in if dropped tracker then st
              else
                (case getPositionByToken (positionManager st) (tokenAddress tx) of
                   Some existingPosition \<Rightarrow>
                     if status existingPosition \<noteq> StatusClosed
                     then monitorPosition st existingPosition tracker tx now
                     else evaluateForEntry st tracker newId now
                 | None \<Rightarrow> evaluateForEntry st tracker newId now))"

text \<open>
  One iteration of the loop of \<open>checkStalePositions\<close>, and the loop over the snapshot
  returned by \<open>getOpenPositions\<close>.
\<close>

definition checkStalePosition :: "int \<Rightarrow> SignalEngine \<Rightarrow> PaperPosition \<Rightarrow> SignalEngine" where
  "checkStalePosition now st position =
     (case getTracker (tokenRegistry st) (tokenAddress_p position) of
        None \<Rightarrow> st
      | Some tracker \<Rightarrow>
          let metrics = calculateMetrics tracker now;
              currentPrice = avgBuySize metrics;
              (fired, ks, pm) = check (killStates st) (positionManager st) position tracker currentPrice
                                  None now;
              st = st\<lparr>killStates := ks, positionManager := pm\<rparr>
          in if fired then st
             else
               let (exitEval, es, pm) = evaluateExit (exitStates st) (positionManager st) position
                                          currentPrice metrics tracker now;
                   st = st\<lparr>exitStates := es, positionManager := pm\<rparr>
               in if shouldFullExit exitEval \<and> reason exitEval \<noteq> None then
                    let (es, pm) = executeExit (exitStates st) (positionManager st) position
                                     currentPrice exitEval now
                    in st\<lparr>exitStates := es, positionManager := pm\<rparr>
                  else st)"

definition checkStalePositions :: "SignalEngine \<Rightarrow> int \<Rightarrow> SignalEngine" where
  "checkStalePositions st now =
     foldl (checkStalePosition now) st (getOpenPositions (positionManager st))"

text \<open>
  The periodic tick. \<open>genId\<close> gives, for a token address, the id that
  \<open>generatePositionId\<close> would produce for a position opened on it in this tick.
\<close>

definition recalculateScores :: "SignalEngine \<Rightarrow> (string \<Rightarrow> string) \<Rightarrow> int \<Rightarrow> SignalEngine" where
  "recalculateScores st genId now =
     (let activeTrackers = getActiveTrackers (tokenRegistry st) now;
          st = foldl (\<lambda>st tracker.
                        if dropped tracker then st
                        else if hasOpenPosition (positionManager st) (tokenAddress_tr tracker) then st
                        else evaluateForEntry st tracker (genId (tokenAddress_tr tracker)) now)
                     st activeTrackers
      in checkStalePositions st now)"

section \<open>Call sequences\<close>

text \<open>
  The calls on one tracker that the drop flag guards, and their effect; a run of such
  calls is \<open>foldl applyCall\<close>.
\<close>

datatype TrackerCall = AddTransaction Transaction int | Drop string

fun applyCall :: "TokenTracker \<Rightarrow> TrackerCall \<Rightarrow> TokenTracker" where
  "applyCall t (AddTransaction tx now) = addTransaction t tx now"
| "applyCall t (Drop rsn) = drop_t t rsn"

section \<open>Runs of position-manager and exit-engine calls\<close>

text \<open>
  The calls a client can make on the position manager and the exit engine that share it,
  with their effect on the pair of the exit-state map and the manager. The position
  argument of the two exit-engine calls is the object the caller holds, whatever its
  field values are.
\<close>

datatype ManagerCall =
    OpenPosition string real real string int
  | ExecutePartialExit string real int
  | ClosePosition string real ExitReason int
  | EvaluateExit PaperPosition real RollingMetrics TokenTracker int
  | ExecuteExit PaperPosition real ExitEvaluation int

fun applyManagerCall ::
  "(string \<rightharpoonup> ExitState) \<times> PositionManager \<Rightarrow> ManagerCall \<Rightarrow> (string \<rightharpoonup> ExitState) \<times> PositionManager" where
  "applyManagerCall (es, pm) (OpenPosition tok price scr newId now) =
     (es, snd (openPosition pm tok price scr newId now))"
| "applyManagerCall (es, pm) (ExecutePartialExit pid price now) =
     (es, executePartialExit pm pid price now)"
| "applyManagerCall (es, pm) (ClosePosition pid price rsn now) =
     (es, closePosition pm pid price rsn now)"
| "applyManagerCall (es, pm) (EvaluateExit position price metrics tracker now) =
     snd (evaluateExit es pm position price metrics tracker now)"
| "applyManagerCall (es, pm) (ExecuteExit position price evaluation now) =
     executeExit es pm position price evaluation now"

text \<open>
  The status recorded for a position id: that of the live position under this id, else
  that of the archived position with this id.
\<close>

definition statusOf :: "PositionManager \<Rightarrow> string \<Rightarrow> PositionStatus option" where
  "statusOf pm pid =
     (case map_of (positions pm) pid of
        Some p \<Rightarrow> Some (status p)
      | None \<Rightarrow>
          (case List.find (\<lambda>p. id_p p = pid) (closedPositions pm) of
             Some p \<Rightarrow> Some (status p)
           | None \<Rightarrow> None))"

definition knownIds :: "PositionManager \<Rightarrow> string list" where
  "knownIds pm = map fst (positions pm) @ map id_p (closedPositions pm)"

fun statusRank :: "PositionStatus \<Rightarrow> nat" where
  "statusRank StatusOpen = 0"
| "statusRank StatusPartial = 1"
| "statusRank StatusClosed = 2"

text \<open>
  Between two manager states no position moves backwards along open, partial, closed,
  and none is lost.
\<close>

definition statusAdvances :: "PositionManager \<Rightarrow> PositionManager \<Rightarrow> bool" where
  "statusAdvances pm pm' =
     (\<forall>pid \<in> set (knownIds pm).
        case statusOf pm pid of
          None \<Rightarrow> True
        | Some s \<Rightarrow> (case statusOf pm' pid of None \<Rightarrow> False | Some s' \<Rightarrow> statusRank s \<le> statusRank s'))"

text \<open>
  States as the manager builds them: live positions are stored under their own id, and
  archived positions are closed.
\<close>

definition wellFormed :: "PositionManager \<Rightarrow> bool" where
  "wellFormed pm =
     ((\<forall>(k, p) \<in> set (positions pm). id_p p = k)
      \<and> (\<forall>p \<in> set (closedPositions pm). status p = StatusClosed))"

text \<open>
  Every id handed to \<open>openPosition\<close> in a run is new at the time of the call, as the ids
  of \<open>generatePositionId\<close> are taken to be.
\<close>

fun freshIds :: "(string \<rightharpoonup> ExitState) \<times> PositionManager \<Rightarrow> ManagerCall list \<Rightarrow> bool" where
  "freshIds s [] = True"
| "freshIds s (c # cs) =
     ((case c of OpenPosition tok price scr newId now \<Rightarrow> newId \<notin> set (knownIds (snd s)) | _ \<Rightarrow> True)
      \<and> freshIds (applyManagerCall s c) cs)"

section \<open>The six checks of the filter stage\<close>

text \<open>
  The conditions that \<open>evaluateFilters\<close> tests, in its order, each paired with the message
  it reports when the condition holds.
\<close>

definition filterChecks :: "TokenTracker \<Rightarrow> RollingMetrics \<Rightarrow> (bool \<times> string) list" where
  "filterChecks tracker metrics =
     [(largestBuy metrics > filters_maxLargestBuy,
       ''largest_buy ('' @ toFixed (largestBuy metrics) 3 @ '' SOL) > 2 SOL''),
      (avgBuySize metrics > filters_maxAvgBuySize,
       ''avg_buy_size ('' @ toFixed (avgBuySize metrics) 3 @ '' SOL) > 0.8 SOL''),
      (avgBuySize metrics > 0 \<and> avgBuySize metrics < filters_minAvgBuySize,
       ''avg_buy_size ('' @ toFixed (avgBuySize metrics) 3 @ '' SOL) < 0.03 SOL''),
      (buySizeStd metrics > 0.5,
       ''buy_size_std ('' @ toFixed (buySizeStd metrics) 3 @ '') indicates whale noise''),
      (devBuyCount tracker > filters_maxDevBuys,
       ''dev wallet bought '' @ natToString (devBuyCount tracker) @ '' times (max: 1)''),
      (metadataEditCount tracker > filters_maxMetadataEdits,
       ''metadata edited '' @ natToString (metadataEditCount tracker) @ '' times (max: 1)'')]"

section \<open>Reachable engine states\<close>

text \<open>
  The states the orchestrator can be in: it starts from the fresh engine, and its
  tracker map, positions and auxiliary state change only through an incoming event
  (\<open>processTransaction\<close>) or the periodic tick (\<open>recalculateScores\<close>).
\<close>

inductive reachable :: "SignalEngine \<Rightarrow> bool" where
  start: "reachable newSignalEngine"
| event: "reachable st \<Longrightarrow> reachable (processTransaction st tx newId now)"
| tick: "reachable st \<Longrightarrow> reachable (recalculateScores st genId now)"

text \<open>No tracker of the registry has recorded a buy above the largest-buy ceiling.\<close>

definition smallBuys :: "TokenTracker \<Rightarrow> bool" where
  "smallBuys t = (\<forall>tx \<in> set (transactions (buffer t)). solAmount tx \<le> filters_maxLargestBuy)"

definition noLargeBuy :: "SignalEngine \<Rightarrow> bool" where
  "noLargeBuy st =
     (\<forall>(k, t) \<in> set (tokenRegistry st).
        \<forall>tx \<in> set (transactions (buffer t)). solAmount tx \<le> filters_maxLargestBuy)"

section \<open>Example values\<close>

text \<open>Concrete inputs on which the theorems below are evaluated.\<close>

definition ex_tx :: "int \<Rightarrow> string \<Rightarrow> real \<Rightarrow> Transaction" where
  "ex_tx t w a = \<lparr>tokenAddress = ''T'', timestamp = t, buyerWallet = w, solAmount = a, txHash = ''h''\<rparr>"

definition ex_position :: PaperPosition where
  "ex_position =
     \<lparr>id_p = ''pos_1'', tokenAddress_p = ''T'', entryTimestamp = 0, entryPrice = 0.1,
      entryScore = 20, positionSizeSOL = 1, remainingSizeSOL = 1, status = StatusOpen,
      partialExitTimestamp = None, partialExitPrice = None, exitTimestamp = None,
      exitPrice = None, exitReason = None, maxUnrealizedPnL = 0, realizedPnL = 0\<rparr>"

definition ex_manager :: PositionManager where
  "ex_manager =
     \<lparr>positions = [(''pos_1'', ex_position)], closedPositions = [],
      tokenToPosition = [''T'' \<mapsto> ''pos_1'']\<rparr>"

definition ex_metrics :: "real \<Rightarrow> real \<Rightarrow> RollingMetrics" where
  "ex_metrics price n60 =
     \<lparr>txCount30s = n60, txCount60s = n60, txCount180s = n60, txCountPrev60s = 0, buyers5m = n60,
      repeatBuyers = 0, avgBuySize = price, buySizeStd = 0, largestBuy = price,
      txIntervalMean = None, txIntervalDelta = False, txAcceleration = n60\<rparr>"

definition ex_tracker :: "real \<Rightarrow> TokenTracker" where
  "ex_tracker a = newTokenTracker ''T'' (ex_tx 0 ''dev'' a) 0"

definition ex_engine :: "real \<Rightarrow> SignalEngine" where
  "ex_engine a = newSignalEngine\<lparr>tokenRegistry := [(''T'', ex_tracker a)]\<rparr>"


definition ex_exitStates :: "real \<Rightarrow> (string \<rightharpoonup> ExitState)" where
  "ex_exitStates n =
     [''pos_1'' \<mapsto> \<lparr>positionId_es = ''pos_1'', consecutiveTxDecreases = 0, lastTxCount60s = n,
                     spikeDetected = False, postSpikeTxCount = None\<rparr>]"

definition ex_killStates :: "string \<rightharpoonup> KillState" where
  "ex_killStates = [''pos_1'' \<mapsto> \<lparr>positionId_ks = ''pos_1'', lastActivityTimestamp = 0\<rparr>]"

text \<open>
  An engine that tracks token \<open>T\<close> (one recorded buy of \<open>a\<close> units at time 0) and holds
  the open position \<open>pos_1\<close> on it, entered at price 0.1.
\<close>

definition ex_open_engine :: "real \<Rightarrow> SignalEngine" where
  "ex_open_engine a =
     \<lparr>tokenRegistry = [(''T'', ex_tracker a)], positionManager = ex_manager,
      exitStates = ex_exitStates 1, killStates = ex_killStates, missedRunners = [],
      processedTxCount = 0\<rparr>"

text \<open>A run that opens a position, sells half, closes it and then tries both exits again.\<close>

definition ex_calls_pre :: "ManagerCall list" where
  "ex_calls_pre = [OpenPosition ''T'' 0.1 20 ''pos_1'' 0, ExecutePartialExit ''pos_1'' 0.3 1000]"

definition ex_calls_post :: "ManagerCall list" where
  "ex_calls_post =
     [ClosePosition ''pos_1'' 0.2 no_activity_60s 2000, ExecutePartialExit ''pos_1'' 0.5 3000,
      ClosePosition ''pos_1'' 0.5 profit_target_full 3000]"

section \<open>Properties\<close>

lemmas CONFIG_defs =
  windows_short_def windows_medium_def windows_long_def windows_buyers_def
  maxTokenAgeMinutes_def minBuyersAfter5Min_def
  filters_maxLargestBuy_def filters_maxAvgBuySize_def filters_minAvgBuySize_def
  filters_maxDevBuys_def filters_maxMetadataEdits_def
  signals_minBuyers5m_def signals_maxTxIntervalMean_def signals_minAvgBuySize_def
  signals_maxAvgBuySize_def signals_maxLargestBuy_def signals_minTxCount60s_def
  entry_minScore_def entry_minTokenAgeMinutes_def entry_maxTokenAgeMinutes_def
  entry_minMarketCapSOL_def entry_maxMarketCapSOL_def entry_positionSizeSOL_def
  exit_partialProfitPercent_def exit_fullProfitPercent_def exit_partialExitPercent_def
  exit_noActivitySeconds_def exit_txDecreaseThreshold_def
  killSwitch_noTxSeconds_def killSwitch_whaleBuyThreshold_def
  scoring_buyersWeight_def scoring_accelerationWeight_def scoring_repeatBuyersWeight_def
  scoring_largestBuyPenalty_def scoring_stagnationPenalty_def

subsection \<open>Scoring\<close>

text \<open>
  C7. For all metric inputs \<open>calculateScore\<close> returns exactly
  \<open>max 0 (buyers5m * 2 + txAcceleration * 3 + repeatBuyers * 2 - (5 if largestBuy > 1.0) -
  (10 if txCount60s = 0))\<close>; in particular the score is never negative.
\<close>

theorem calculateScore_formula:
  "score (calculateScore addr m now) =
     max 0 (buyers5m m * 2 + txAcceleration m * 3 + repeatBuyers m * 2
            - (if largestBuy m > 1.0 then 5 else 0) - (if txCount60s m = 0 then 10 else 0))
   \<and> 0 \<le> score (calculateScore addr m now)"
  by (simp add: calculateScore_def Let_def scoring_buyersWeight_def scoring_accelerationWeight_def
      scoring_repeatBuyersWeight_def scoring_largestBuyPenalty_def scoring_stagnationPenalty_def)

theorem calculateScore_formula_witness:
  "score (calculateScore ''T''
       \<lparr>txCount30s = 0, txCount60s = 0, txCount180s = 1, txCountPrev60s = 2, buyers5m = 1,
        repeatBuyers = 0, avgBuySize = 1.5, buySizeStd = 0, largestBuy = 1.5,
        txIntervalMean = None, txIntervalDelta = False, txAcceleration = -2\<rparr> 0) = 0"
  using calculateScore_formula [of "''T''"
       "\<lparr>txCount30s = 0, txCount60s = 0, txCount180s = 1, txCountPrev60s = 2, buyers5m = 1,
        repeatBuyers = 0, avgBuySize = 1.5, buySizeStd = 0, largestBuy = 1.5,
        txIntervalMean = None, txIntervalDelta = False, txAcceleration = -2\<rparr>" 0]
  by simp

subsection \<open>Windowed counts\<close>

text \<open>
  Eviction on \<open>add\<close> never removes an entry that a later query over a window no longer
  than the retention would count.
\<close>

lemma getWindow_add_evict:
  assumes "w \<le> maxWindowMs b" and "t \<le> now"
  shows "getWindow (add b tx t) w now = getWindow (b\<lparr>transactions := transactions b @ [tx]\<rparr>) w now"
proof -
  have "\<And>x. now - w \<le> timestamp x \<Longrightarrow> t - maxWindowMs b \<le> timestamp x"
    using assms by linarith
  then show ?thesis
    by (auto simp: getWindow_def add_def evictOld_def Let_def intro!: filter_cong)
qed

text \<open>
  C8. For every window length \<open>w\<close> and evaluation time \<open>now\<close>, \<open>countWindow\<close> counts
  exactly the stored entries with timestamp at least \<open>now - w\<close>: no entry older than \<open>w\<close>
  is included, and an entry stamped exactly \<open>now - w\<close> is included.
\<close>

theorem countWindow_exact:
  "countWindow b w now = length (filter (\<lambda>tx. now - w \<le> timestamp tx) (transactions b))
   \<and> set (getWindow b w now) = {tx \<in> set (transactions b). now - w \<le> timestamp tx}
   \<and> (\<forall>tx \<in> set (getWindow b w now). \<not> timestamp tx < now - w)
   \<and> (\<forall>tx \<in> set (transactions b). timestamp tx = now - w \<longrightarrow> tx \<in> set (getWindow b w now))"
  by (auto simp: countWindow_def getWindow_def Let_def)

theorem countWindow_exact_witness:
  "countWindow \<lparr>transactions = [ex_tx 0 ''a'' 0.1, ex_tx 40000 ''b'' 0.1, ex_tx 100000 ''c'' 0.1],
                maxWindowMs = 300000\<rparr> 60000 100000 = 2
   \<and> ex_tx 40000 ''b'' 0.1
       \<in> set (getWindow \<lparr>transactions = [ex_tx 0 ''a'' 0.1, ex_tx 40000 ''b'' 0.1, ex_tx 100000 ''c'' 0.1],
                         maxWindowMs = 300000\<rparr> 60000 100000)
   \<and> ex_tx 0 ''a'' 0.1
       \<notin> set (getWindow \<lparr>transactions = [ex_tx 0 ''a'' 0.1, ex_tx 40000 ''b'' 0.1, ex_tx 100000 ''c'' 0.1],
                         maxWindowMs = 300000\<rparr> 60000 100000)"
  using countWindow_exact [of "\<lparr>transactions = [ex_tx 0 ''a'' 0.1, ex_tx 40000 ''b'' 0.1, ex_tx 100000 ''c'' 0.1],
                maxWindowMs = 300000\<rparr>" 60000 100000]
  by (simp add: ex_tx_def)

subsection \<open>Dropped trackers\<close>

lemma applyCalls_dropped: "dropped t \<Longrightarrow> foldl applyCall t calls = t"
proof (induction calls)
  case Nil
  then show ?case by simp
next
  case (Cons c calls)
  have "applyCall t c = t"
    using Cons.prems by (cases c) (simp_all add: addTransaction_def drop_t_def)
  then show ?case using Cons by simp
qed

text \<open>
  C6. \<open>drop\<close> is idempotent and one-way: after it the flag is set and the first recorded
  reason is kept, and once the flag is set every run of further \<open>addTransaction\<close> and
  \<open>drop\<close> calls leaves the transaction buffer, the unique-buyer set, the developer-buy
  count, the last-activity timestamp, the metrics computed at any fixed instant and the
  flag and reason unchanged.
\<close>

theorem drop_idempotent_one_way:
  "dropped (drop_t t r)
   \<and> dropReason (drop_t t r) = (if dropped t then dropReason t else Some r)
   \<and> drop_t (drop_t t r) r' = drop_t t r
   \<and> (dropped t \<longrightarrow>
        (let t' = foldl applyCall t calls
         in transactions (buffer t') = transactions (buffer t)
            \<and> uniqueBuyers t' = uniqueBuyers t
            \<and> devBuyCount t' = devBuyCount t
            \<and> lastTxTimestamp t' = lastTxTimestamp t
            \<and> calculateMetrics t' now = calculateMetrics t now
            \<and> dropped t' \<and> dropReason t' = dropReason t))"
  by (simp add: applyCalls_dropped Let_def) (simp add: drop_t_def)

theorem drop_idempotent_one_way_witness:
  "dropped (drop_t (newTokenTracker ''T'' (ex_tx 0 ''dev'' 0.1) 0) ''first'')
   \<and> (let t' = foldl applyCall (drop_t (newTokenTracker ''T'' (ex_tx 0 ''dev'' 0.1) 0) ''first'')
                  [AddTransaction (ex_tx 1000 ''dev'' 0.2) 1000, Drop ''second'',
                   AddTransaction (ex_tx 2000 ''bob'' 0.3) 2000]
       in map timestamp (transactions (buffer t')) = [0] \<and> uniqueBuyers t' = {''dev''}
          \<and> devBuyCount t' = 1 \<and> lastTxTimestamp t' = 0
          \<and> dropped t' \<and> dropReason t' = Some ''first'')"
  using drop_idempotent_one_way [of "drop_t (newTokenTracker ''T'' (ex_tx 0 ''dev'' 0.1) 0) ''first''"
      "''first''" "''first''"
      "[AddTransaction (ex_tx 1000 ''dev'' 0.2) 1000, Drop ''second'',
        AddTransaction (ex_tx 2000 ''bob'' 0.3) 2000]" 0]
  by (simp add: Let_def newTokenTracker_def addTransaction_def drop_t_def ex_tx_def add_def evictOld_def
      newMultiWindowBuffer_def windows_buyers_def)

subsection \<open>First exit evaluation\<close>

text \<open>
  C10. When \<open>evaluateExit\<close> is called for a position whose id has no entry in the
  exit-state map, it creates a fresh state (zero consecutive decreases, the current
  60-second count, no spike marker) and returns no partial and no full exit, whatever the
  price, the profit and the metrics are.
\<close>

theorem evaluateExit_first_call:
  "es (id_p position) = None \<Longrightarrow>
   evaluateExit es pm position currentPrice metrics tracker now =
     (\<lparr>shouldPartialExit = False, shouldFullExit = False, reason = None\<rparr>,
      es(id_p position \<mapsto>
           \<lparr>positionId_es = id_p position, consecutiveTxDecreases = 0,
            lastTxCount60s = txCount60s metrics, spikeDetected = False, postSpikeTxCount = None\<rparr>),
      pm)"
  by (simp add: evaluateExit_def ExitEngine_initPosition_def)

theorem evaluateExit_first_call_witness:
  "(Map.empty :: string \<rightharpoonup> ExitState) (id_p ex_position) = None
   \<and> ((1.0 - entryPrice ex_position) / entryPrice ex_position) * 100 \<ge> exit_fullProfitPercent
   \<and> fst (evaluateExit Map.empty ex_manager ex_position 1.0 (ex_metrics 1.0 4)
            (newTokenTracker ''T'' (ex_tx 0 ''dev'' 0.1) 0) 1000)
       = \<lparr>shouldPartialExit = False, shouldFullExit = False, reason = None\<rparr>"
  using evaluateExit_first_call [of Map.empty ex_position ex_manager "1.0" "ex_metrics 1.0 4"
      "newTokenTracker ''T'' (ex_tx 0 ''dev'' 0.1) 0" 1000]
  by (simp add: ex_position_def exit_fullProfitPercent_def)

subsection \<open>Filter stage\<close>

lemma getWindow_single:
  "getWindow \<lparr>transactions = [tx], maxWindowMs = m\<rparr> w now = (if now - w \<le> timestamp tx then [tx] else [])"
  by (simp add: getWindow_def)

lemma getRange_single:
  "getRange \<lparr>transactions = [tx], maxWindowMs = m\<rparr> a b now =
     (if now - a \<le> timestamp tx \<and> timestamp tx \<le> now - b then [tx] else [])"
  by (simp add: getRange_def Let_def)

lemma ex_tx_simps:
  "timestamp (ex_tx t w a) = t" "solAmount (ex_tx t w a) = a" "buyerWallet (ex_tx t w a) = w"
  "tokenAddress (ex_tx t w a) = ''T''"
  by (simp_all add: ex_tx_def)

lemma ex_tracker_value:
  "ex_tracker a =
   \<lparr>tokenAddress_tr = ''T'', firstSeenTimestamp = 0,
    buffer = \<lparr>transactions = [ex_tx 0 ''dev'' a], maxWindowMs = 300000\<rparr>, uniqueBuyers = {''dev''},
    dropped = False, dropReason = None, metadataEditCount = 0,
    devWallet = Some ''dev'', devBuyCount = 1, lastTxTimestamp = 0\<rparr>"
  by (simp add: ex_tracker_def newTokenTracker_def addTransaction_def ex_tx_def add_def evictOld_def
      newMultiWindowBuffer_def windows_buyers_def Let_def)

lemma ex_tracker_metrics_fresh:
  "calculateMetrics (ex_tracker a) 1000 =
    \<lparr>txCount30s = 1, txCount60s = 1, txCount180s = 1, txCountPrev60s = 0, buyers5m = 1,
      repeatBuyers = 0, avgBuySize = a, buySizeStd = 0, largestBuy = a,
      txIntervalMean = None, txIntervalDelta = False, txAcceleration = 1\<rparr>"
  by (simp add: ex_tracker_value calculateMetrics_def countWindow_def countRange_def getUniqueBuyers_def
      getRepeatBuyers_def getBuySizeStats_def getTxIntervalMean_def getTxIntervalDelta_def
      getWindow_single getRange_single CONFIG_defs ex_tx_simps Let_def)

lemma toFixed_examples:
  "toFixed (5 / 2) 3 = ''2.500''" "toFixed 0 3 = ''0.000''"
  by code_simp+

lemma push_if_filter: "(if c then rs @ [m] else rs) = rs @ map snd (filter fst [(c, m)])"
  by simp

lemma filter_six_split:
  "map snd (filter fst [a, b, c, d, e, f]) =
     map snd (filter fst [a]) @ map snd (filter fst [b]) @ map snd (filter fst [c]) @
     map snd (filter fst [d]) @ map snd (filter fst [e]) @ map snd (filter fst [f])"
  by simp

text \<open>The reasons pushed one after the other are the messages of the checks that hold.\<close>

lemma evaluateFilters_reasons:
  "evaluateFilters tracker m =
     (let rs = map snd (filter fst (filterChecks tracker m))
      in \<lparr>passed = (rs = []), reason_f = (if rs = [] then None else Some (join ''; '' rs))\<rparr>)"
  by (simp only: evaluateFilters_def filterChecks_def Let_def push_if_filter filter_six_split
      append_assoc append_Nil length_0_conv)

lemma evaluateForEntry_failed:
  assumes "\<not> passed (evaluateFilters tracker (calculateMetrics tracker now))"
  shows "evaluateForEntry st tracker newId now =
     st\<lparr>tokenRegistry := AList.update (tokenAddress_tr tracker)
          (drop_t tracker (join ''; '' (map snd (filter fst (filterChecks tracker (calculateMetrics tracker now))))))
          (tokenRegistry st)\<rparr>"
  using assms by (simp add: evaluateForEntry_def Let_def) (simp add: evaluateFilters_reasons Let_def)

lemma below_floor_only_nonzero:
  assumes "avgBuySize m = 0"
  shows "''avg_buy_size ('' @ toFixed (avgBuySize m) 3 @ '' SOL) < 0.03 SOL''
           \<notin> set (map snd (filter fst (filterChecks tracker m)))"
  using assms by (simp add: filterChecks_def)

text \<open>
  C9. Whenever the filter stage fails for a token, the reason passed to \<open>drop\<close> is the
  messages of all failing checks among the six, in order, joined by \<open>; \<close>; at least one
  check fails; and the below-floor message is not reported when the average buy size is
  zero.
\<close>

theorem filter_reason_lists_every_failing_check:
  "\<not> passed (evaluateFilters tracker (calculateMetrics tracker now)) \<Longrightarrow>
   evaluateForEntry st tracker newId now =
     st\<lparr>tokenRegistry := AList.update (tokenAddress_tr tracker)
          (drop_t tracker (join ''; '' (map snd (filter fst (filterChecks tracker (calculateMetrics tracker now))))))
          (tokenRegistry st)\<rparr>
   \<and> (\<exists>c \<in> set (filterChecks tracker (calculateMetrics tracker now)). fst c)
   \<and> (avgBuySize (calculateMetrics tracker now) = 0 \<longrightarrow>
        ''avg_buy_size ('' @ toFixed (avgBuySize (calculateMetrics tracker now)) 3 @ '' SOL) < 0.03 SOL''
           \<notin> set (map snd (filter fst (filterChecks tracker (calculateMetrics tracker now)))))"
proof (intro conjI impI)
  assume np: "\<not> passed (evaluateFilters tracker (calculateMetrics tracker now))"
  show "evaluateForEntry st tracker newId now =
     st\<lparr>tokenRegistry := AList.update (tokenAddress_tr tracker)
          (drop_t tracker (join ''; '' (map snd (filter fst (filterChecks tracker (calculateMetrics tracker now))))))
          (tokenRegistry st)\<rparr>"
    by (rule evaluateForEntry_failed [OF np])
  from np have "filter fst (filterChecks tracker (calculateMetrics tracker now)) \<noteq> []"
    by (simp add: evaluateFilters_reasons Let_def)
  then show "\<exists>c \<in> set (filterChecks tracker (calculateMetrics tracker now)). fst c"
    by (simp add: filter_empty_conv)
next
  assume "avgBuySize (calculateMetrics tracker now) = 0"
  then show "''avg_buy_size ('' @ toFixed (avgBuySize (calculateMetrics tracker now)) 3 @ '' SOL) < 0.03 SOL''
           \<notin> set (map snd (filter fst (filterChecks tracker (calculateMetrics tracker now))))"
    by (rule below_floor_only_nonzero)
qed

theorem filter_reason_lists_every_failing_check_witness:
  "\<not> passed (evaluateFilters (ex_tracker 2.5) (calculateMetrics (ex_tracker 2.5) 1000))
   \<and> map_of (tokenRegistry (evaluateForEntry (ex_engine 2.5) (ex_tracker 2.5) ''pos_1'' 1000)) ''T''
       = Some ((ex_tracker 2.5)\<lparr>dropped := True,
            dropReason := Some ''largest_buy (2.500 SOL) > 2 SOL; avg_buy_size (2.500 SOL) > 0.8 SOL''\<rparr>)"
  using filter_reason_lists_every_failing_check [of "ex_tracker 2.5" 1000 "ex_engine 2.5" "''pos_1''"]
  by (simp add: ex_tracker_metrics_fresh evaluateFilters_reasons filterChecks_def CONFIG_defs
      toFixed_examples Let_def)
     (simp add: ex_tracker_value ex_engine_def newSignalEngine_def drop_t_def)

subsection \<open>Largest buy\<close>

lemma foldl_max_ge_init: "foldl max (a::real) xs \<ge> a"
  by (induction xs arbitrary: a) (auto intro: order_trans [OF max.cobounded1])

lemma foldl_max_ge_elem: "x \<in> set xs \<Longrightarrow> foldl max (a::real) xs \<ge> x"
proof (induction xs arbitrary: a)
  case Nil
  then show ?case by simp
next
  case (Cons y ys)
  show ?case
  proof (cases "x = y")
    case True
    have "max a y \<le> foldl max (max a y) ys" by (rule foldl_max_ge_init)
    then show ?thesis using True by simp
  next
    case False
    then have "x \<in> set ys" using Cons.prems by simp
    then show ?thesis using Cons.IH by simp
  qed
qed

lemma largestBuy_ge_window_entry:
  assumes "tx \<in> set (transactions (buffer tracker))" and "now - windows_long \<le> timestamp tx"
  shows "largestBuy (calculateMetrics tracker now) \<ge> solAmount tx"
proof -
  let ?txs = "getWindow (buffer tracker) windows_long now"
  have mem: "tx \<in> set ?txs" using assms by (simp add: getWindow_def)
  then have ne: "?txs \<noteq> []" by auto
  have "solAmount tx \<in> set (map solAmount ?txs)" using mem by simp
  then have "solAmount tx \<in> set (hd (map solAmount ?txs) # tl (map solAmount ?txs))"
    using ne by simp
  then have "solAmount tx = hd (map solAmount ?txs) \<or> solAmount tx \<in> set (tl (map solAmount ?txs))"
    by simp
  then have "solAmount tx \<le> foldl max (hd (map solAmount ?txs)) (tl (map solAmount ?txs))"
    using foldl_max_ge_init foldl_max_ge_elem by metis
  then show ?thesis using ne
    by (simp add: calculateMetrics_def getBuySizeStats_def Let_def)
qed

lemma prefix_join_head: "prefix p x \<Longrightarrow> prefix p (join sep (x # xs))"
  by (cases xs) (auto simp: prefix_def)

lemma largest_buy_reason_first:
  assumes "largestBuy m > filters_maxLargestBuy"
  shows "prefix ''largest_buy'' (join ''; '' (map snd (filter fst (filterChecks tracker m))))"
proof -
  obtain rest where "map snd (filter fst (filterChecks tracker m))
      = (''largest_buy ('' @ toFixed (largestBuy m) 3 @ '' SOL) > 2 SOL'') # rest"
    using assms by (simp add: filterChecks_def)
  moreover have "prefix ''largest_buy'' (''largest_buy ('' @ toFixed (largestBuy m) 3 @ '' SOL) > 2 SOL'')"
    by (simp add: prefix_def)
  ultimately show ?thesis by (simp add: prefix_join_head)
qed

text \<open>
  What the filter stage does when it is handed a tracker whose 180-second window holds a
  buy of 2.5 units: it drops the token, with a reason that starts with \<open>largest_buy\<close>.
\<close>

lemma evaluateForEntry_drops_largest_buy:
  assumes "tx \<in> set (transactions (buffer tracker))" and "solAmount tx = 2.5"
    and "now - windows_long \<le> timestamp tx" and "\<not> dropped tracker"
  shows "\<exists>rsn. evaluateForEntry st tracker newId now =
             st\<lparr>tokenRegistry := AList.update (tokenAddress_tr tracker)
                  (tracker\<lparr>dropped := True, dropReason := Some rsn\<rparr>) (tokenRegistry st)\<rparr>
           \<and> prefix ''largest_buy'' rsn"
proof -
  let ?m = "calculateMetrics tracker now"
  have big: "largestBuy ?m > filters_maxLargestBuy"
    using largestBuy_ge_window_entry [OF assms(1) assms(3)] assms(2)
    by (simp add: filters_maxLargestBuy_def)
  then have "filter fst (filterChecks tracker ?m) \<noteq> []"
    by (simp add: filterChecks_def)
  then have np: "\<not> passed (evaluateFilters tracker ?m)"
    by (simp add: evaluateFilters_reasons Let_def)
  let ?r = "join ''; '' (map snd (filter fst (filterChecks tracker ?m)))"
  have "evaluateForEntry st tracker newId now =
     st\<lparr>tokenRegistry := AList.update (tokenAddress_tr tracker)
          (tracker\<lparr>dropped := True, dropReason := Some ?r\<rparr>) (tokenRegistry st)\<rparr>"
    using evaluateForEntry_failed [OF np] assms(4) by (simp add: drop_t_def)
  moreover have "prefix ''largest_buy'' ?r" by (rule largest_buy_reason_first [OF big])
  ultimately show ?thesis by blast
qed


lemma ex_tracker_fields:
  "tokenAddress_tr (ex_tracker a) = ''T''" "dropped (ex_tracker a) = False"
  "devBuyCount (ex_tracker a) = 1" "metadataEditCount (ex_tracker a) = 0"
  "firstSeenTimestamp (ex_tracker a) = 0" "lastTxTimestamp (ex_tracker a) = 0"
  by (simp_all add: ex_tracker_value)


subsection \<open>Entry price\<close>

text \<open>
  A position entered by the pipeline has a positive entry price, so the quotients by the
  entry price below are quotients by a nonzero number, as in the code.
\<close>

lemma tryEntry_entryPrice:
  assumes "fst (tryEntry st tracker scr (evaluateSignals metrics) metrics newId now)"
  shows "calculateEntryPrice metrics \<ge> signals_minAvgBuySize \<and> calculateEntryPrice metrics > 0"
proof -
  have "eligible (evaluateEntry (positionManager st) tracker scr (evaluateSignals metrics) metrics now)"
    using assms by (auto simp: tryEntry_def Let_def split: if_splits option.splits prod.splits)
  then have "allPassed (evaluateSignals metrics)"
    by (auto simp: evaluateEntry_def Let_def split: if_splits)
  then have "avgBuySize metrics \<ge> signals_minAvgBuySize"
    by (simp add: evaluateSignals_def Let_def)
  then show ?thesis by (simp add: calculateEntryPrice_def signals_minAvgBuySize_def)
qed

subsection \<open>Exit execution\<close>

lemma evaluateExit_pm:
  "evaluateExit es pm position price m t now = (ev, es', pm') \<Longrightarrow>
   pm' = (if es (id_p position) = None then pm else updateUnrealizedPnL pm (id_p position) price)"
  by (auto simp: evaluateExit_def Let_def split: option.splits prod.splits if_splits)

lemma evaluateExit_reason:
  "evaluateExit es pm position price m t now = (ev, es', pm') \<Longrightarrow>
   shouldFullExit ev \<Longrightarrow> reason ev \<noteq> None"
  by (auto simp: evaluateExit_def Let_def split: option.splits prod.splits if_splits)

lemma evaluateExit_partial_state:
  "evaluateExit es pm position price m t now = (ev, es', pm') \<Longrightarrow>
   shouldPartialExit ev \<Longrightarrow> es (id_p position) \<noteq> None \<and> status position = StatusOpen
     \<and> ((price - entryPrice position) / entryPrice position) * 100 \<ge> exit_partialProfitPercent"
  by (auto simp: evaluateExit_def Let_def split: option.splits prod.splits if_splits)

lemma updateUnrealizedPnL_lookup:
  assumes "map_of (positions pm) pid = Some p" and "status p \<noteq> StatusClosed"
  shows "map_of (positions (updateUnrealizedPnL pm pid price)) pid =
           Some (p\<lparr>maxUnrealizedPnL := max (maxUnrealizedPnL p) ((price - entryPrice p) / entryPrice p * 100)\<rparr>)"
    and "closedPositions (updateUnrealizedPnL pm pid price) = closedPositions pm"
    and "tokenToPosition (updateUnrealizedPnL pm pid price) = tokenToPosition pm"
  using assms by (auto simp: updateUnrealizedPnL_def Let_def update_conv' max_def)

lemma executePartialExit_lookup:
  assumes "map_of (positions pm) pid = Some p" and "status p \<noteq> StatusClosed"
  shows "executePartialExit pm pid price now =
           pm\<lparr>positions := AList.update pid
                  (p\<lparr>remainingSizeSOL := remainingSizeSOL p - positionSizeSOL p * (exit_partialExitPercent / 100),
                     partialExitTimestamp := Some now, partialExitPrice := Some price,
                     realizedPnL := realizedPnL p
                        + positionSizeSOL p * (exit_partialExitPercent / 100) * ((price - entryPrice p) / entryPrice p),
                     status := StatusPartial\<rparr>) (positions pm)\<rparr>"
  using assms by (simp add: executePartialExit_def Let_def)

lemma closePosition_lookup:
  assumes "map_of (positions pm) pid = Some p" and "status p \<noteq> StatusClosed"
  shows "closePosition pm pid price rsn now =
           pm\<lparr>closedPositions := closedPositions pm @
                  [p\<lparr>remainingSizeSOL := 0, exitTimestamp := Some now, exitPrice := Some price,
                     exitReason := Some rsn,
                     realizedPnL := realizedPnL p + remainingSizeSOL p * ((price - entryPrice p) / entryPrice p),
                     status := StatusClosed\<rparr>],
               positions := AList.delete pid (positions pm),
               tokenToPosition := (tokenToPosition pm)(tokenAddress_p p := None)\<rparr>"
  using assms by (simp add: closePosition_def Let_def)

lemma executeExit_partial_then_full:
  assumes "map_of (positions pm) (id_p position) = Some position"
    and "status position = StatusOpen"
    and "evaluateExit es pm position currentPrice metrics tracker now = (ev, es', pm')"
    and "shouldPartialExit ev" and "shouldFullExit ev"
  shows "\<exists>rsn p pPartial.
           reason ev = Some rsn
         \<and> map_of (positions pm') (id_p position) = Some p
         \<and> status p = StatusOpen
         \<and> positionSizeSOL p = positionSizeSOL position
         \<and> remainingSizeSOL p = remainingSizeSOL position
         \<and> realizedPnL p = realizedPnL position
         \<and> pPartial = p\<lparr>remainingSizeSOL := remainingSizeSOL p - positionSizeSOL p * (50 / 100),
                          partialExitTimestamp := Some now, partialExitPrice := Some currentPrice,
                          realizedPnL := realizedPnL p
                             + positionSizeSOL p * (50 / 100) * ((currentPrice - entryPrice p) / entryPrice p),
                          status := StatusPartial\<rparr>
         \<and> map_of (positions (executePartialExit pm' (id_p position) currentPrice now)) (id_p position)
               = Some pPartial
         \<and> executeExit es' pm' position currentPrice ev now
               = (es'(id_p position := None),
                  closePosition (executePartialExit pm' (id_p position) currentPrice now)
                                (id_p position) currentPrice rsn now)
         \<and> closedPositions (snd (executeExit es' pm' position currentPrice ev now))
               = closedPositions pm' @
                   [pPartial\<lparr>remainingSizeSOL := 0, exitTimestamp := Some now,
                             exitPrice := Some currentPrice, exitReason := Some rsn,
                             realizedPnL := realizedPnL pPartial
                                + remainingSizeSOL pPartial * ((currentPrice - entryPrice p) / entryPrice p),
                             status := StatusClosed\<rparr>]
         \<and> map_of (positions (snd (executeExit es' pm' position currentPrice ev now))) (id_p position) = None
         \<and> tokenToPosition (snd (executeExit es' pm' position currentPrice ev now)) (tokenAddress_p position) = None"
proof -
  let ?id = "id_p position"
  obtain rsn where rsn: "reason ev = Some rsn"
    using evaluateExit_reason [OF assms(3) assms(5)] by auto
  have st: "es ?id \<noteq> None" using evaluateExit_partial_state [OF assms(3) assms(4)] by simp
  then have pm': "pm' = updateUnrealizedPnL pm ?id currentPrice"
    using evaluateExit_pm [OF assms(3)] by auto
  have nc: "status position \<noteq> StatusClosed" using assms(2) by simp
  define p where "p = position\<lparr>maxUnrealizedPnL :=
      max (maxUnrealizedPnL position) ((currentPrice - entryPrice position) / entryPrice position * 100)\<rparr>"
  have lp: "map_of (positions pm') ?id = Some p"
    unfolding pm' p_def by (rule updateUnrealizedPnL_lookup(1) [OF assms(1) nc])
  have pf: "status p = StatusOpen" "positionSizeSOL p = positionSizeSOL position"
    "remainingSizeSOL p = remainingSizeSOL position" "realizedPnL p = realizedPnL position"
    "id_p p = ?id" "tokenAddress_p p = tokenAddress_p position" "status p \<noteq> StatusClosed"
    using assms(2) by (simp_all add: p_def)
  define pPartial where "pPartial = p\<lparr>remainingSizeSOL := remainingSizeSOL p - positionSizeSOL p * (50 / 100),
                          partialExitTimestamp := Some now, partialExitPrice := Some currentPrice,
                          realizedPnL := realizedPnL p
                             + positionSizeSOL p * (50 / 100) * ((currentPrice - entryPrice p) / entryPrice p),
                          status := StatusPartial\<rparr>"
  have pe: "executePartialExit pm' ?id currentPrice now = pm'\<lparr>positions := AList.update ?id pPartial (positions pm')\<rparr>"
    unfolding pPartial_def using executePartialExit_lookup [OF lp pf(7)]
    by (simp add: exit_partialExitPercent_def)
  have lpp: "map_of (positions (executePartialExit pm' ?id currentPrice now)) ?id = Some pPartial"
    by (simp add: pe update_conv')
  have ppnc: "status pPartial \<noteq> StatusClosed" by (simp add: pPartial_def)
  have ex: "executeExit es' pm' position currentPrice ev now
               = (es'(?id := None),
                  closePosition (executePartialExit pm' ?id currentPrice now) ?id currentPrice rsn now)"
    using assms(2,4,5) rsn lpp
    by (simp add: executeExit_def getPosition_def ExitEngine_cleanup_def Let_def)
  have cl: "closePosition (executePartialExit pm' ?id currentPrice now) ?id currentPrice rsn now
      = (executePartialExit pm' ?id currentPrice now)
          \<lparr>closedPositions := closedPositions (executePartialExit pm' ?id currentPrice now) @
                  [pPartial\<lparr>remainingSizeSOL := 0, exitTimestamp := Some now, exitPrice := Some currentPrice,
                     exitReason := Some rsn,
                     realizedPnL := realizedPnL pPartial
                        + remainingSizeSOL pPartial * ((currentPrice - entryPrice pPartial) / entryPrice pPartial),
                     status := StatusClosed\<rparr>],
               positions := AList.delete ?id (positions (executePartialExit pm' ?id currentPrice now)),
               tokenToPosition := (tokenToPosition (executePartialExit pm' ?id currentPrice now))
                                     (tokenAddress_p pPartial := None)\<rparr>"
    by (rule closePosition_lookup [OF lpp ppnc])
  have ep: "entryPrice pPartial = entryPrice p" "tokenAddress_p pPartial = tokenAddress_p position"
    by (simp_all add: pPartial_def pf)
  have c1: "closedPositions (snd (executeExit es' pm' position currentPrice ev now))
               = closedPositions pm' @
                   [pPartial\<lparr>remainingSizeSOL := 0, exitTimestamp := Some now,
                             exitPrice := Some currentPrice, exitReason := Some rsn,
                             realizedPnL := realizedPnL pPartial
                                + remainingSizeSOL pPartial * ((currentPrice - entryPrice p) / entryPrice p),
                             status := StatusClosed\<rparr>]"
    by (simp add: ex cl ep) (simp add: pe)
  have c2: "map_of (positions (snd (executeExit es' pm' position currentPrice ev now))) ?id = None"
    by (simp add: ex cl delete_conv')
  have c3: "tokenToPosition (snd (executeExit es' pm' position currentPrice ev now)) (tokenAddress_p position) = None"
    by (simp add: ex cl ep)
  show ?thesis
    using rsn lp pf(1-4) pPartial_def lpp ex c1 c2 c3 by blast
qed

text \<open>
  C4. Whenever one exit evaluation of an open position (the object stored in the manager)
  finds both the partial-exit condition and a full-exit condition, executing it performs
  the partial exit first, liquidating 50% of the nominal size while the status is open,
  and then closes the remainder with the full-exit reason: the position is archived with
  status closed and remaining size 0, and leaves the map of live positions.
\<close>

theorem partial_then_full_exit:
  assumes "map_of (positions pm) (id_p position) = Some position"
    and "status position = StatusOpen"
    and "evaluateExit es pm position currentPrice metrics tracker now = (ev, es', pm')"
    and "shouldPartialExit ev" and "shouldFullExit ev"
  shows "\<exists>rsn p pPartial.
           reason ev = Some rsn
         \<and> map_of (positions pm') (id_p position) = Some p
         \<and> status p = StatusOpen
         \<and> positionSizeSOL p = positionSizeSOL position
         \<and> remainingSizeSOL p = remainingSizeSOL position
         \<and> realizedPnL p = realizedPnL position
         \<and> pPartial = p\<lparr>remainingSizeSOL := remainingSizeSOL p - positionSizeSOL p * (50 / 100),
                          partialExitTimestamp := Some now, partialExitPrice := Some currentPrice,
                          realizedPnL := realizedPnL p
                             + positionSizeSOL p * (50 / 100) * ((currentPrice - entryPrice p) / entryPrice p),
                          status := StatusPartial\<rparr>
         \<and> map_of (positions (executePartialExit pm' (id_p position) currentPrice now)) (id_p position)
               = Some pPartial
         \<and> executeExit es' pm' position currentPrice ev now
               = (es'(id_p position := None),
                  closePosition (executePartialExit pm' (id_p position) currentPrice now)
                                (id_p position) currentPrice rsn now)
         \<and> closedPositions (snd (executeExit es' pm' position currentPrice ev now))
               = closedPositions pm' @
                   [pPartial\<lparr>remainingSizeSOL := 0, exitTimestamp := Some now,
                             exitPrice := Some currentPrice, exitReason := Some rsn,
                             realizedPnL := realizedPnL pPartial
                                + remainingSizeSOL pPartial * ((currentPrice - entryPrice p) / entryPrice p),
                             status := StatusClosed\<rparr>]
         \<and> map_of (positions (snd (executeExit es' pm' position currentPrice ev now))) (id_p position) = None
         \<and> tokenToPosition (snd (executeExit es' pm' position currentPrice ev now)) (tokenAddress_p position) = None"
  using assms by (rule executeExit_partial_then_full)

lemma ex_manager_lookup:
  "map_of (positions ex_manager) ''pos_1'' = Some ex_position"
  "id_p ex_position = ''pos_1''" "status ex_position = StatusOpen" "entryPrice ex_position = 1 / 10"
  "tokenAddress_p ex_position = ''T''" "maxUnrealizedPnL ex_position = 0"
  by (simp_all add: ex_manager_def ex_position_def)

lemma ex_metrics_fields:
  "txCount60s (ex_metrics price n) = n" "avgBuySize (ex_metrics price n) = price"
  by (simp_all add: ex_metrics_def)

lemma ex_updateUnrealized:
  "0 < (price - 1 / 10) / (1 / 10) * 100 \<Longrightarrow>
   updateUnrealizedPnL ex_manager ''pos_1'' price =
     ex_manager\<lparr>positions := [(''pos_1'', ex_position\<lparr>maxUnrealizedPnL := (price - 1 / 10) / (1 / 10) * 100\<rparr>)]\<rparr>"
  by (simp add: updateUnrealizedPnL_def ex_manager_lookup Let_def) (simp add: ex_manager_def)

lemma ex_evaluateExit_both:
  "evaluateExit (ex_exitStates 4) ex_manager ex_position (35 / 100) (ex_metrics (35 / 100) 4) (ex_tracker a) 1000 =
     (\<lparr>shouldPartialExit = True, shouldFullExit = True, reason = Some profit_target_full\<rparr>,
      ex_exitStates 4,
      ex_manager\<lparr>positions := [(''pos_1'', ex_position\<lparr>maxUnrealizedPnL := 250\<rparr>)]\<rparr>)"
  by (simp add: evaluateExit_def ex_manager_lookup ex_exitStates_def ex_metrics_fields ex_tracker_fields
      ex_updateUnrealized CONFIG_defs Let_def)

theorem partial_then_full_exit_witness:
  "map_of (positions ex_manager) (id_p ex_position) = Some ex_position
   \<and> status ex_position = StatusOpen
   \<and> evaluateExit (ex_exitStates 4) ex_manager ex_position 0.35 (ex_metrics 0.35 4) (ex_tracker 0.35) 1000 =
        (\<lparr>shouldPartialExit = True, shouldFullExit = True, reason = Some profit_target_full\<rparr>,
         ex_exitStates 4,
         ex_manager\<lparr>positions := [(''pos_1'', ex_position\<lparr>maxUnrealizedPnL := 250\<rparr>)]\<rparr>)
   \<and> closedPositions (snd (executeExit (ex_exitStates 4)
          (ex_manager\<lparr>positions := [(''pos_1'', ex_position\<lparr>maxUnrealizedPnL := 250\<rparr>)]\<rparr>) ex_position 0.35
          \<lparr>shouldPartialExit = True, shouldFullExit = True, reason = Some profit_target_full\<rparr> 1000))
       = [ex_position\<lparr>maxUnrealizedPnL := 250, remainingSizeSOL := 0, partialExitTimestamp := Some 1000,
                      partialExitPrice := Some 0.35, exitTimestamp := Some 1000, exitPrice := Some 0.35,
                      exitReason := Some profit_target_full, realizedPnL := 2.5, status := StatusClosed\<rparr>]
   \<and> map_of (positions (snd (executeExit (ex_exitStates 4)
          (ex_manager\<lparr>positions := [(''pos_1'', ex_position\<lparr>maxUnrealizedPnL := 250\<rparr>)]\<rparr>) ex_position 0.35
          \<lparr>shouldPartialExit = True, shouldFullExit = True, reason = Some profit_target_full\<rparr> 1000)))
        (id_p ex_position) = None"
proof -
  have h1: "map_of (positions ex_manager) (id_p ex_position) = Some ex_position"
    by (simp add: ex_manager_lookup)
  have h2: "status ex_position = StatusOpen" by (simp add: ex_manager_lookup)
  have h3: "evaluateExit (ex_exitStates 4) ex_manager ex_position 0.35 (ex_metrics 0.35 4) (ex_tracker 0.35) 1000 =
        (\<lparr>shouldPartialExit = True, shouldFullExit = True, reason = Some profit_target_full\<rparr>,
         ex_exitStates 4,
         ex_manager\<lparr>positions := [(''pos_1'', ex_position\<lparr>maxUnrealizedPnL := 250\<rparr>)]\<rparr>)"
    using ex_evaluateExit_both [of "0.35"] by simp
  have h4: "shouldPartialExit \<lparr>shouldPartialExit = True, shouldFullExit = True, reason = Some profit_target_full\<rparr>"
    and h5: "shouldFullExit \<lparr>shouldPartialExit = True, shouldFullExit = True, reason = Some profit_target_full\<rparr>"
    by simp_all
  from partial_then_full_exit [OF h1 h2 h3 h4 h5]
  obtain rsn p pPartial where
    r: "Some profit_target_full = Some rsn"
    and p: "map_of (positions (ex_manager\<lparr>positions := [(''pos_1'', ex_position\<lparr>maxUnrealizedPnL := 250\<rparr>)]\<rparr>))
              (id_p ex_position) = Some p"
    and pp: "pPartial = p\<lparr>remainingSizeSOL := remainingSizeSOL p - positionSizeSOL p * (50 / 100),
                          partialExitTimestamp := Some 1000, partialExitPrice := Some 0.35,
                          realizedPnL := realizedPnL p
                             + positionSizeSOL p * (50 / 100) * ((0.35 - entryPrice p) / entryPrice p),
                          status := StatusPartial\<rparr>"
    and c: "closedPositions (snd (executeExit (ex_exitStates 4)
          (ex_manager\<lparr>positions := [(''pos_1'', ex_position\<lparr>maxUnrealizedPnL := 250\<rparr>)]\<rparr>) ex_position 0.35
          \<lparr>shouldPartialExit = True, shouldFullExit = True, reason = Some profit_target_full\<rparr> 1000))
          = closedPositions (ex_manager\<lparr>positions := [(''pos_1'', ex_position\<lparr>maxUnrealizedPnL := 250\<rparr>)]\<rparr>) @
                   [pPartial\<lparr>remainingSizeSOL := 0, exitTimestamp := Some 1000,
                             exitPrice := Some 0.35, exitReason := Some rsn,
                             realizedPnL := realizedPnL pPartial
                                + remainingSizeSOL pPartial * ((0.35 - entryPrice p) / entryPrice p),
                             status := StatusClosed\<rparr>]"
    and d: "map_of (positions (snd (executeExit (ex_exitStates 4)
          (ex_manager\<lparr>positions := [(''pos_1'', ex_position\<lparr>maxUnrealizedPnL := 250\<rparr>)]\<rparr>) ex_position 0.35
          \<lparr>shouldPartialExit = True, shouldFullExit = True, reason = Some profit_target_full\<rparr> 1000)))
        (id_p ex_position) = None"
    by (simp only: ExitEvaluation.simps) blast
  from p have pv: "p = ex_position\<lparr>maxUnrealizedPnL := 250\<rparr>" by (simp add: ex_manager_lookup)
  from r have rv: "rsn = profit_target_full" by simp
  have "closedPositions (snd (executeExit (ex_exitStates 4)
          (ex_manager\<lparr>positions := [(''pos_1'', ex_position\<lparr>maxUnrealizedPnL := 250\<rparr>)]\<rparr>) ex_position 0.35
          \<lparr>shouldPartialExit = True, shouldFullExit = True, reason = Some profit_target_full\<rparr> 1000))
       = [ex_position\<lparr>maxUnrealizedPnL := 250, remainingSizeSOL := 0, partialExitTimestamp := Some 1000,
                      partialExitPrice := Some 0.35, exitTimestamp := Some 1000, exitPrice := Some 0.35,
                      exitReason := Some profit_target_full, realizedPnL := 2.5, status := StatusClosed\<rparr>]"
    unfolding c pp pv rv by (simp add: ex_manager_def ex_position_def)
  then show ?thesis using h1 h2 h3 d by simp
qed

subsection \<open>Periodic tick\<close>

lemma check_silent_pm:
  "check ks pm position tracker price latestTx now = (False, ks', pm') \<Longrightarrow> pm' = pm"
  by (auto simp: check_def trigger_def Let_def split: option.splits if_splits prod.splits)

lemma ex_open_engine_fields:
  "tokenRegistry (ex_open_engine a) = [(''T'', ex_tracker a)]"
  "positionManager (ex_open_engine a) = ex_manager"
  "exitStates (ex_open_engine a) = ex_exitStates 1"
  "killStates (ex_open_engine a) = ex_killStates"
  by (simp_all add: ex_open_engine_def)

lemma ex_check_silent:
  "check ex_killStates ex_manager ex_position (ex_tracker a) price None 1000 = (False, ex_killStates, ex_manager)"
  by (simp add: check_def ex_killStates_def ex_manager_lookup ex_tracker_fields killSwitch_noTxSeconds_def Let_def)

lemma ex_metrics_fresh_eq: "calculateMetrics (ex_tracker a) 1000 = ex_metrics a 1"
  by (simp add: ex_tracker_metrics_fresh ex_metrics_def)

lemma ex_evaluateExit_partial_only:
  "evaluateExit (ex_exitStates 1) ex_manager ex_position (1 / 4) (ex_metrics (1 / 4) 1) (ex_tracker a) 1000 =
     (\<lparr>shouldPartialExit = True, shouldFullExit = False, reason = None\<rparr>,
      ex_exitStates 1,
      ex_manager\<lparr>positions := [(''pos_1'', ex_position\<lparr>maxUnrealizedPnL := 150\<rparr>)]\<rparr>)"
  by (simp add: evaluateExit_def ex_manager_lookup ex_exitStates_def ex_metrics_fields ex_tracker_fields
      ex_updateUnrealized CONFIG_defs Let_def)

lemma ex_checkStalePosition_partial_only:
  "checkStalePosition 1000 (ex_open_engine (1 / 4)) ex_position =
     (ex_open_engine (1 / 4))\<lparr>positionManager :=
         ex_manager\<lparr>positions := [(''pos_1'', ex_position\<lparr>maxUnrealizedPnL := 150\<rparr>)]\<rparr>\<rparr>"
  by (simp add: checkStalePosition_def getTracker_def ex_open_engine_fields ex_manager_lookup
      ex_metrics_fresh_eq ex_metrics_fields ex_check_silent ex_evaluateExit_partial_only Let_def)

lemma ex_checkStalePositions_partial_only:
  "checkStalePositions (ex_open_engine (1 / 4)) 1000 =
     (ex_open_engine (1 / 4))\<lparr>positionManager :=
         ex_manager\<lparr>positions := [(''pos_1'', ex_position\<lparr>maxUnrealizedPnL := 150\<rparr>)]\<rparr>\<rparr>"
proof -
  have "getOpenPositions (positionManager (ex_open_engine (1 / 4))) = [ex_position]"
    by (simp add: getOpenPositions_def ex_open_engine_fields ex_manager_def ex_manager_lookup)
  then show ?thesis
    by (simp add: checkStalePositions_def ex_checkStalePosition_partial_only)
qed

text \<open>
  C3 on the code. On a tick, with the profit of the open position at +150% and no
  full-exit condition, \<open>checkStalePositions\<close> executes no partial exit: the position
  keeps status open and its whole size, nothing is archived, and only the running maximum
  of the unrealized profit is updated.
\<close>

theorem tick_skips_partial_exit:
  "getOpenPositions (positionManager (ex_open_engine 0.25)) = [ex_position]
   \<and> status ex_position = StatusOpen
   \<and> avgBuySize (calculateMetrics (ex_tracker 0.25) 1000) = 0.25
   \<and> ((0.25 - entryPrice ex_position) / entryPrice ex_position) * 100 = 150
   \<and> exit_partialProfitPercent = 120
   \<and> positions (positionManager (checkStalePositions (ex_open_engine 0.25) 1000))
        = [(''pos_1'', ex_position\<lparr>maxUnrealizedPnL := 150\<rparr>)]
   \<and> status (ex_position\<lparr>maxUnrealizedPnL := 150\<rparr>) = StatusOpen
   \<and> remainingSizeSOL (ex_position\<lparr>maxUnrealizedPnL := 150\<rparr>) = positionSizeSOL ex_position
   \<and> closedPositions (positionManager (checkStalePositions (ex_open_engine 0.25) 1000)) = []"
proof -
  have "getOpenPositions (positionManager (ex_open_engine (1 / 4))) = [ex_position]"
    by (simp add: getOpenPositions_def ex_open_engine_fields ex_manager_def ex_manager_lookup)
  moreover have "closedPositions ex_manager = []" by (simp add: ex_manager_def)
  moreover have "remainingSizeSOL ex_position = positionSizeSOL ex_position"
    by (simp add: ex_position_def)
  ultimately show ?thesis
    by (simp add: ex_checkStalePositions_partial_only ex_manager_lookup ex_metrics_fresh_eq
        ex_metrics_fields exit_partialProfitPercent_def)
qed

lemma checkStalePosition_silent:
  assumes "getTracker (tokenRegistry st) (tokenAddress_p position) = Some tracker"
    and "fst (check (killStates st) (positionManager st) position tracker
                (avgBuySize (calculateMetrics tracker now)) None now) = False"
    and "evaluateExit (exitStates st) (positionManager st) position
           (avgBuySize (calculateMetrics tracker now)) (calculateMetrics tracker now) tracker now = (ev, es', pm')"
  shows "positionManager (checkStalePosition now st position) =
           (if shouldFullExit ev \<and> reason ev \<noteq> None
            then snd (executeExit es' pm' position (avgBuySize (calculateMetrics tracker now)) ev now)
            else pm')"
proof -
  obtain ks' pm0 where c: "check (killStates st) (positionManager st) position tracker
                (avgBuySize (calculateMetrics tracker now)) None now = (False, ks', pm0)"
    using assms(2) by (metis fst_conv prod.exhaust)
  have pm0: "pm0 = positionManager st" by (rule check_silent_pm [OF c])
  show ?thesis
    using assms(1,3) c pm0
    by (auto simp: checkStalePosition_def Let_def split: prod.splits)
qed

text \<open>
  The same for every state: when the kill switch stays silent and the evaluation of an
  open position on a tick asks for the partial exit, \<open>checkStalePosition\<close> executes it
  only if the evaluation asks for a full exit as well; otherwise the position is left
  open with its remaining size and realized profit.
\<close>

lemma checkStalePosition_partial_needs_full:
  assumes "getTracker (tokenRegistry st) (tokenAddress_p position) = Some tracker"
    and "map_of (positions (positionManager st)) (id_p position) = Some position"
    and "status position = StatusOpen"
    and "fst (check (killStates st) (positionManager st) position tracker
                (avgBuySize (calculateMetrics tracker now)) None now) = False"
    and "evaluateExit (exitStates st) (positionManager st) position
           (avgBuySize (calculateMetrics tracker now)) (calculateMetrics tracker now) tracker now = (ev, es', pm')"
    and "shouldPartialExit ev"
  shows "(\<not> shouldFullExit ev \<longrightarrow>
            positionManager (checkStalePosition now st position) = pm'
            \<and> (\<exists>p. map_of (positions pm') (id_p position) = Some p \<and> status p = StatusOpen
                   \<and> remainingSizeSOL p = remainingSizeSOL position
                   \<and> realizedPnL p = realizedPnL position))
       \<and> (shouldFullExit ev \<longrightarrow>
            (\<exists>rsn p. reason ev = Some rsn
               \<and> positionManager (checkStalePosition now st position) =
                   closePosition (executePartialExit pm' (id_p position) (avgBuySize (calculateMetrics tracker now)) now)
                                 (id_p position) (avgBuySize (calculateMetrics tracker now)) rsn now
               \<and> map_of (positions (executePartialExit pm' (id_p position)
                                      (avgBuySize (calculateMetrics tracker now)) now)) (id_p position) = Some p
               \<and> status p = StatusPartial
               \<and> remainingSizeSOL p = remainingSizeSOL position - positionSizeSOL position * (50 / 100)
               \<and> realizedPnL p = realizedPnL position
                    + positionSizeSOL position * (50 / 100)
                      * ((avgBuySize (calculateMetrics tracker now) - entryPrice position) / entryPrice position)
               \<and> map_of (positions (positionManager (checkStalePosition now st position))) (id_p position) = None))"
proof (intro conjI impI)
  let ?price = "avgBuySize (calculateMetrics tracker now)"
  let ?id = "id_p position"
  note shape = checkStalePosition_silent [OF assms(1) assms(4) assms(5)]
  have st: "exitStates st ?id \<noteq> None"
    using evaluateExit_partial_state [OF assms(5) assms(6)] by simp
  then have pm': "pm' = updateUnrealizedPnL (positionManager st) ?id ?price"
    using evaluateExit_pm [OF assms(5)] by auto
  have nc: "status position \<noteq> StatusClosed" using assms(3) by simp
  {
    assume nf: "\<not> shouldFullExit ev"
    show "positionManager (checkStalePosition now st position) = pm'"
      using shape nf by simp
    show "\<exists>p. map_of (positions pm') ?id = Some p \<and> status p = StatusOpen
            \<and> remainingSizeSOL p = remainingSizeSOL position \<and> realizedPnL p = realizedPnL position"
      unfolding pm' using updateUnrealizedPnL_lookup(1) [OF assms(2) nc, of ?price] assms(3) by simp
  }
  {
    assume f: "shouldFullExit ev"
    from executeExit_partial_then_full [OF assms(2) assms(3) assms(5) assms(6) f]
    obtain rsn p pPartial where
      r: "reason ev = Some rsn"
      and p: "map_of (positions pm') ?id = Some p" "status p = StatusOpen"
         "positionSizeSOL p = positionSizeSOL position" "remainingSizeSOL p = remainingSizeSOL position"
         "realizedPnL p = realizedPnL position"
      and pp: "pPartial = p\<lparr>remainingSizeSOL := remainingSizeSOL p - positionSizeSOL p * (50 / 100),
                          partialExitTimestamp := Some now, partialExitPrice := Some ?price,
                          realizedPnL := realizedPnL p
                             + positionSizeSOL p * (50 / 100) * ((?price - entryPrice p) / entryPrice p),
                          status := StatusPartial\<rparr>"
      and lpp: "map_of (positions (executePartialExit pm' ?id ?price now)) ?id = Some pPartial"
      and ex: "executeExit es' pm' position ?price ev now
               = (es'(?id := None), closePosition (executePartialExit pm' ?id ?price now) ?id ?price rsn now)"
      and gone: "map_of (positions (snd (executeExit es' pm' position ?price ev now))) ?id = None"
      by blast
    have ep: "entryPrice p = entryPrice position"
      using p(1) updateUnrealizedPnL_lookup(1) [OF assms(2) nc, of ?price] unfolding pm' by auto
    have res: "positionManager (checkStalePosition now st position) =
                 closePosition (executePartialExit pm' ?id ?price now) ?id ?price rsn now"
      using shape f r ex by simp
    show "\<exists>rsn p. reason ev = Some rsn
               \<and> positionManager (checkStalePosition now st position) =
                   closePosition (executePartialExit pm' ?id ?price now) ?id ?price rsn now
               \<and> map_of (positions (executePartialExit pm' ?id ?price now)) ?id = Some p
               \<and> status p = StatusPartial
               \<and> remainingSizeSOL p = remainingSizeSOL position - positionSizeSOL position * (50 / 100)
               \<and> realizedPnL p = realizedPnL position
                    + positionSizeSOL position * (50 / 100) * ((?price - entryPrice position) / entryPrice position)
               \<and> map_of (positions (positionManager (checkStalePosition now st position))) ?id = None"
    proof (intro exI conjI)
      show "reason ev = Some rsn" by (rule r)
      show "positionManager (checkStalePosition now st position) =
                   closePosition (executePartialExit pm' ?id ?price now) ?id ?price rsn now" by (rule res)
      show "map_of (positions (executePartialExit pm' ?id ?price now)) ?id = Some pPartial" by (rule lpp)
      show "status pPartial = StatusPartial" by (simp add: pp)
      show "remainingSizeSOL pPartial = remainingSizeSOL position - positionSizeSOL position * (50 / 100)"
        by (simp add: pp p)
      show "realizedPnL pPartial = realizedPnL position
                    + positionSizeSOL position * (50 / 100) * ((?price - entryPrice position) / entryPrice position)"
        by (simp add: pp p ep)
      show "map_of (positions (positionManager (checkStalePosition now st position))) ?id = None"
        using gone ex res by simp
    qed
  }
qed

text \<open>
  The event path on the same state and the same evaluation: \<open>monitorPosition\<close> executes
  the partial exit, liquidating half of the nominal size.
\<close>

lemma ex_check_silent_event:
  "check ex_killStates ex_manager ex_position (ex_tracker a) price (Some (ex_tx 0 ''dev'' a')) 1000
     = (False, ex_killStates, ex_manager)"
  if "a' \<le> 3"
  using that
  by (simp add: check_def ex_killStates_def ex_manager_lookup ex_tracker_fields ex_tx_simps
      killSwitch_noTxSeconds_def killSwitch_whaleBuyThreshold_def Let_def)

lemma ex_monitorPosition_partial:
  "positionManager (monitorPosition (ex_open_engine (1 / 4)) ex_position (ex_tracker (1 / 4))
       (ex_tx 0 ''dev'' (1 / 4)) 1000) =
     ex_manager\<lparr>positions :=
        [(''pos_1'', ex_position\<lparr>maxUnrealizedPnL := 150, remainingSizeSOL := 1 / 2,
                                 partialExitTimestamp := Some 1000, partialExitPrice := Some (1 / 4),
                                 realizedPnL := 3 / 4, status := StatusPartial\<rparr>)]\<rparr>"
  by (simp add: monitorPosition_def ex_open_engine_fields ex_metrics_fresh_eq ex_metrics_fields
        ex_check_silent_event ex_evaluateExit_partial_only executeExit_def ex_manager_lookup
        getPosition_def Let_def)
     (simp add: executePartialExit_def ex_manager_def ex_position_def exit_partialExitPercent_def Let_def)

subsection \<open>Whale buys\<close>

lemma processTransaction_quick_filtered:
  "solAmount tx > filters_maxLargestBuy \<Longrightarrow>
   processTransaction st tx newId now = st\<lparr>processedTxCount := processedTxCount st + 1\<rparr>"
  by (simp add: processTransaction_def quickFilterTransaction_def Let_def)

text \<open>Every buy above the whale threshold of the kill switch is among the buys so discarded.\<close>

lemma processTransaction_whale_ignored:
  "solAmount tx > killSwitch_whaleBuyThreshold \<Longrightarrow>
   processTransaction st tx newId now = st\<lparr>processedTxCount := processedTxCount st + 1\<rparr>"
  by (rule processTransaction_quick_filtered)
     (simp add: killSwitch_whaleBuyThreshold_def filters_maxLargestBuy_def)

text \<open>
  What \<open>KillSwitch.check\<close> does when it is handed a buy of 3.5 units from a wallet other
  than the developer's on the open example position: it closes the position with the whale
  reason.
\<close>

lemma ex_check_whale:
  "check ex_killStates ex_manager ex_position (ex_tracker a) price (Some (ex_tx 1000 ''whale'' (7 / 2))) 1000 =
     (True, Map.empty,
      \<lparr>positions = [],
       closedPositions = [ex_position\<lparr>remainingSizeSOL := 0, exitTimestamp := Some 1000,
                                     exitPrice := Some price, exitReason := Some kill_switch_whale,
                                     realizedPnL := (price - 1 / 10) / (1 / 10),
                                     status := StatusClosed\<rparr>],
       tokenToPosition = Map.empty\<rparr>)"
  by (simp add: check_def trigger_def ex_killStates_def ex_manager_lookup ex_tracker_fields ex_tx_simps
      killSwitch_noTxSeconds_def killSwitch_whaleBuyThreshold_def KillSwitch_cleanup_def
      closePosition_def Let_def)
     (simp add: ex_manager_def ex_position_def)

text \<open>
  C1 on the code. The pipeline hands no such buy to the kill switch: the quick filter at
  the head of \<open>processTransaction\<close> rejects every amount above 2, so a buy of 3.5 units
  on a token with an open position only increments the processed-event counter and the
  position stays open.
\<close>

theorem whale_buy_stopped_by_quick_filter:
  "getOpenPositions (positionManager (ex_open_engine 0.1)) = [ex_position]
   \<and> status ex_position = StatusOpen
   \<and> tokenAddress (ex_tx 1000 ''whale'' 3.5) = tokenAddress_p ex_position
   \<and> solAmount (ex_tx 1000 ''whale'' 3.5) = 3.5
   \<and> devWallet (ex_tracker 0.1) = Some ''dev''
   \<and> processTransaction (ex_open_engine 0.1) (ex_tx 1000 ''whale'' 3.5) ''pos_2'' 1000
        = (ex_open_engine 0.1)\<lparr>processedTxCount := 1\<rparr>
   \<and> getOpenPositions (positionManager
          (processTransaction (ex_open_engine 0.1) (ex_tx 1000 ''whale'' 3.5) ''pos_2'' 1000)) = [ex_position]
   \<and> closedPositions (positionManager
          (processTransaction (ex_open_engine 0.1) (ex_tx 1000 ''whale'' 3.5) ''pos_2'' 1000)) = []"
proof -
  have q: "solAmount (ex_tx 1000 ''whale'' 3.5) > filters_maxLargestBuy"
    by (simp add: ex_tx_simps filters_maxLargestBuy_def)
  have g: "getOpenPositions (positionManager (ex_open_engine 0.1)) = [ex_position]"
    by (simp add: getOpenPositions_def ex_open_engine_fields ex_manager_def ex_manager_lookup)
  have c: "closedPositions (positionManager (ex_open_engine 0.1)) = []"
    by (simp add: ex_open_engine_fields ex_manager_def)
  have p: "processedTxCount (ex_open_engine 0.1) = 0" by (simp add: ex_open_engine_def)
  have d: "devWallet (ex_tracker 0.1) = Some ''dev''" by (simp add: ex_tracker_value)
  show ?thesis
    using g c p d processTransaction_quick_filtered [OF q, of "ex_open_engine 0.1" "''pos_2''" 1000]
    by (simp add: ex_manager_lookup ex_tx_simps)
qed

subsection \<open>Status transitions\<close>

lemma statusOf_known: "statusOf pm pid = Some s \<Longrightarrow> pid \<in> set (knownIds pm)"
  by (auto simp: statusOf_def knownIds_def find_Some_iff split: option.splits dest!: map_of_SomeD
      intro: rev_image_eqI)

lemma statusAdvances_iff:
  "statusAdvances pm pm' \<longleftrightarrow>
     (\<forall>pid s. statusOf pm pid = Some s \<longrightarrow> (\<exists>s'. statusOf pm' pid = Some s' \<and> statusRank s \<le> statusRank s'))"
proof
  assume a: "statusAdvances pm pm'"
  show "\<forall>pid s. statusOf pm pid = Some s \<longrightarrow> (\<exists>s'. statusOf pm' pid = Some s' \<and> statusRank s \<le> statusRank s')"
  proof (intro allI impI)
    fix pid s assume s: "statusOf pm pid = Some s"
    then have "pid \<in> set (knownIds pm)" by (rule statusOf_known)
    with a have "case statusOf pm pid of None \<Rightarrow> True
        | Some s \<Rightarrow> (case statusOf pm' pid of None \<Rightarrow> False | Some s' \<Rightarrow> statusRank s \<le> statusRank s')"
      unfolding statusAdvances_def by blast
    with s show "\<exists>s'. statusOf pm' pid = Some s' \<and> statusRank s \<le> statusRank s'"
      by (cases "statusOf pm' pid") simp_all
  qed
next
  assume "\<forall>pid s. statusOf pm pid = Some s \<longrightarrow> (\<exists>s'. statusOf pm' pid = Some s' \<and> statusRank s \<le> statusRank s')"
  then show "statusAdvances pm pm'"
    by (fastforce simp: statusAdvances_def split: option.splits)
qed

lemma statusAdvances_refl: "statusAdvances pm pm"
  by (simp add: statusAdvances_iff)

lemma statusAdvances_trans:
  "statusAdvances a b \<Longrightarrow> statusAdvances b c \<Longrightarrow> statusAdvances a c"
  unfolding statusAdvances_iff by (meson order_trans)

lemma set_update_subset: "set (AList.update k v al) \<subseteq> insert (k, v) (set al)"
  by (induction al) auto

lemma set_delete_subset: "set (AList.delete k al) \<subseteq> set al"
  by (induction al) auto

lemma wellFormed_lookup: "wellFormed pm \<Longrightarrow> map_of (positions pm) k = Some p \<Longrightarrow> id_p p = k"
  by (auto simp: wellFormed_def dest!: map_of_SomeD)

lemma statusOf_cong:
  "map_of (positions pm') pid = map_of (positions pm) pid \<Longrightarrow>
   List.find (\<lambda>p. id_p p = pid) (closedPositions pm') = List.find (\<lambda>p. id_p p = pid) (closedPositions pm) \<Longrightarrow>
   statusOf pm' pid = statusOf pm pid"
  by (simp add: statusOf_def cong: option.case_cong)

lemma statusOf_live: "map_of (positions pm) pid = Some p \<Longrightarrow> statusOf pm pid = Some (status p)"
  by (simp add: statusOf_def)

text \<open>Each operation of the manager keeps the state well formed and moves no status backwards.\<close>

lemma updateUnrealizedPnL_step:
  assumes "wellFormed pm"
  shows "wellFormed (updateUnrealizedPnL pm pid price) \<and> statusAdvances pm (updateUnrealizedPnL pm pid price)"
proof (cases "map_of (positions pm) pid")
  case None
  then show ?thesis using assms by (simp add: updateUnrealizedPnL_def statusAdvances_refl)
next
  case (Some p)
  have idp: "id_p p = pid" by (rule wellFormed_lookup [OF assms Some])
  show ?thesis
  proof (cases "status p = StatusClosed \<or> \<not> (price - entryPrice p) / entryPrice p * 100 > maxUnrealizedPnL p")
    case True
    then show ?thesis using assms Some by (auto simp: updateUnrealizedPnL_def Let_def statusAdvances_refl)
  next
    case False
    let ?p' = "p\<lparr>maxUnrealizedPnL := (price - entryPrice p) / entryPrice p * 100\<rparr>"
    have eq: "updateUnrealizedPnL pm pid price = pm\<lparr>positions := AList.update pid ?p' (positions pm)\<rparr>"
      using False Some by (simp add: updateUnrealizedPnL_def Let_def)
    have wf: "wellFormed (pm\<lparr>positions := AList.update pid ?p' (positions pm)\<rparr>)"
      using assms idp set_update_subset [of pid ?p' "positions pm"]
      by (auto simp: wellFormed_def)
    have "statusOf (pm\<lparr>positions := AList.update pid ?p' (positions pm)\<rparr>) q = statusOf pm q" for q
    proof (cases "q = pid")
      case True
      then show ?thesis using Some by (simp add: statusOf_live update_conv')
    next
      case False
      then show ?thesis by (intro statusOf_cong) (simp_all add: update_conv')
    qed
    then have "statusAdvances pm (pm\<lparr>positions := AList.update pid ?p' (positions pm)\<rparr>)"
      by (simp add: statusAdvances_iff)
    then show ?thesis using wf eq by simp
  qed
qed

lemma executePartialExit_step:
  assumes "wellFormed pm"
  shows "wellFormed (executePartialExit pm pid price now) \<and> statusAdvances pm (executePartialExit pm pid price now)"
proof (cases "map_of (positions pm) pid")
  case None
  then show ?thesis using assms by (simp add: executePartialExit_def statusAdvances_refl)
next
  case (Some p)
  have idp: "id_p p = pid" by (rule wellFormed_lookup [OF assms Some])
  show ?thesis
  proof (cases "status p = StatusClosed")
    case True
    then show ?thesis using assms Some by (simp add: executePartialExit_def statusAdvances_refl)
  next
    case False
    obtain p' where eq: "executePartialExit pm pid price now = pm\<lparr>positions := AList.update pid p' (positions pm)\<rparr>"
      and p': "id_p p' = pid" "status p' = StatusPartial"
      using executePartialExit_lookup [OF Some False, of price now] idp by simp
    have wf: "wellFormed (pm\<lparr>positions := AList.update pid p' (positions pm)\<rparr>)"
      using assms p'(1) set_update_subset [of pid p' "positions pm"]
      by (auto simp: wellFormed_def)
    have "\<exists>s'. statusOf (pm\<lparr>positions := AList.update pid p' (positions pm)\<rparr>) q = Some s'
               \<and> statusRank s \<le> statusRank s'" if "statusOf pm q = Some s" for q s
    proof (cases "q = pid")
      case True
      then have "s = status p" using that Some by (simp add: statusOf_def)
      then have "statusRank s \<le> 1" using False by (cases "status p") simp_all
      then show ?thesis using True p'(2) by (simp add: statusOf_live update_conv')
    next
      case False
      then have "statusOf (pm\<lparr>positions := AList.update pid p' (positions pm)\<rparr>) q = statusOf pm q"
        by (intro statusOf_cong) (simp_all add: update_conv')
      then show ?thesis using that by simp
    qed
    then have "statusAdvances pm (pm\<lparr>positions := AList.update pid p' (positions pm)\<rparr>)"
      by (simp add: statusAdvances_iff)
    then show ?thesis using wf eq by simp
  qed
qed

lemma find_SomeD: "List.find P xs = Some x \<Longrightarrow> x \<in> set xs \<and> P x"
  by (induction xs) (auto split: if_splits)

lemma find_append_other:
  "\<not> P x \<Longrightarrow> List.find P (xs @ [x]) = List.find P xs"
  by (induction xs) auto

lemma find_append_some:
  "List.find P xs = Some y \<Longrightarrow> List.find P (xs @ zs) = Some y"
  by (induction xs) (auto split: if_splits)

lemma closePosition_step:
  assumes "wellFormed pm"
  shows "wellFormed (closePosition pm pid price rsn now) \<and> statusAdvances pm (closePosition pm pid price rsn now)"
proof (cases "map_of (positions pm) pid")
  case None
  then show ?thesis using assms by (simp add: closePosition_def statusAdvances_refl)
next
  case (Some p)
  have idp: "id_p p = pid" by (rule wellFormed_lookup [OF assms Some])
  show ?thesis
  proof (cases "status p = StatusClosed")
    case True
    then show ?thesis using assms Some by (simp add: closePosition_def statusAdvances_refl)
  next
    case False
    obtain p' where eq: "closePosition pm pid price rsn now =
         pm\<lparr>closedPositions := closedPositions pm @ [p'],
            positions := AList.delete pid (positions pm),
            tokenToPosition := (tokenToPosition pm)(tokenAddress_p p := None)\<rparr>"
      and p': "id_p p' = pid" "status p' = StatusClosed"
      using closePosition_lookup [OF Some False, of price rsn now] idp by simp
    let ?pm' = "pm\<lparr>closedPositions := closedPositions pm @ [p'],
            positions := AList.delete pid (positions pm),
            tokenToPosition := (tokenToPosition pm)(tokenAddress_p p := None)\<rparr>"
    have wf: "wellFormed ?pm'"
      using assms p'(2) set_delete_subset [of pid "positions pm"]
      by (auto simp: wellFormed_def)
    have "\<exists>s'. statusOf ?pm' q = Some s' \<and> statusRank s \<le> statusRank s'" if "statusOf pm q = Some s" for q s
    proof (cases "q = pid")
      case True
      have "\<exists>x. List.find (\<lambda>p. id_p p = pid) (closedPositions pm @ [p']) = Some x \<and> x \<in> set (closedPositions pm @ [p'])"
      proof (cases "List.find (\<lambda>p. id_p p = pid) (closedPositions pm @ [p'])")
        case None
        then have "\<not> (\<exists>x. x \<in> set (closedPositions pm @ [p']) \<and> id_p x = pid)"
          using find_None_iff [of "\<lambda>p. id_p p = pid" "closedPositions pm @ [p']"] by blast
        then show ?thesis using p'(1) by auto
      next
        case (Some x)
        then show ?thesis using find_SomeD [OF Some] by simp
      qed
      then obtain x where x: "List.find (\<lambda>p. id_p p = pid) (closedPositions pm @ [p']) = Some x"
        and xin: "x \<in> set (closedPositions pm @ [p'])" by blast
      have "status x = StatusClosed" using xin assms p'(2) by (auto simp: wellFormed_def)
      then have "statusOf ?pm' pid = Some StatusClosed"
        using x by (simp add: statusOf_def delete_conv' cong: option.case_cong)
      moreover have "statusRank s \<le> statusRank StatusClosed" by (cases s) simp_all
      ultimately show ?thesis using True by simp
    next
      case False
      then have "List.find (\<lambda>p. id_p p = q) (closedPositions pm @ [p']) = List.find (\<lambda>p. id_p p = q) (closedPositions pm)"
        using p'(1) by (simp add: find_append_other)
      then have "statusOf ?pm' q = statusOf pm q"
        using False by (intro statusOf_cong) (simp_all add: delete_conv')
      then show ?thesis using that by simp
    qed
    then have "statusAdvances pm ?pm'" by (simp add: statusAdvances_iff)
    then show ?thesis using wf eq by simp
  qed
qed

lemma openPosition_step:
  assumes "wellFormed pm" and "newId \<notin> set (knownIds pm)"
  shows "wellFormed (snd (openPosition pm tok price scr newId now))
         \<and> statusAdvances pm (snd (openPosition pm tok price scr newId now))"
proof -
  let ?new = "\<lparr>id_p = newId, tokenAddress_p = tok, entryTimestamp = now,
                    entryPrice = price, entryScore = scr,
                    positionSizeSOL = entry_positionSizeSOL,
                    remainingSizeSOL = entry_positionSizeSOL,
                    status = StatusOpen,
                    partialExitTimestamp = None, partialExitPrice = None,
                    exitTimestamp = None, exitPrice = None, exitReason = None,
                    maxUnrealizedPnL = 0, realizedPnL = 0\<rparr>"
  let ?pm' = "pm\<lparr>positions := AList.update newId ?new (positions pm),
                tokenToPosition := (tokenToPosition pm)(tok \<mapsto> newId)\<rparr>"
  have cases: "snd (openPosition pm tok price scr newId now) = pm
               \<or> snd (openPosition pm tok price scr newId now) = ?pm'"
    by (simp add: openPosition_def Let_def split: option.splits)
  have wf: "wellFormed ?pm'"
    using assms(1) set_update_subset [of newId ?new "positions pm"]
    by (auto simp: wellFormed_def)
  have "\<exists>s'. statusOf ?pm' q = Some s' \<and> statusRank s \<le> statusRank s'" if "statusOf pm q = Some s" for q s
  proof -
    have "q \<noteq> newId" using statusOf_known [OF that] assms(2) by auto
    then have "statusOf ?pm' q = statusOf pm q"
      by (intro statusOf_cong) (simp_all add: update_conv')
    then show ?thesis using that by simp
  qed
  then have "statusAdvances pm ?pm'" by (simp add: statusAdvances_iff)
  then show ?thesis using cases wf assms(1) statusAdvances_refl by auto
qed

lemma evaluateExit_step:
  assumes "wellFormed pm"
  shows "wellFormed (snd (snd (evaluateExit es pm position price m t now)))
         \<and> statusAdvances pm (snd (snd (evaluateExit es pm position price m t now)))"
proof -
  obtain ev es' pm' where e: "evaluateExit es pm position price m t now = (ev, es', pm')"
    by (cases "evaluateExit es pm position price m t now") auto
  have "pm' = pm \<or> pm' = updateUnrealizedPnL pm (id_p position) price"
    using evaluateExit_pm [OF e] by (simp split: if_splits)
  then show ?thesis
    using e assms updateUnrealizedPnL_step [OF assms] statusAdvances_refl by auto
qed

lemma executeExit_step:
  assumes "wellFormed pm"
  shows "wellFormed (snd (executeExit es pm position price ev now))
         \<and> statusAdvances pm (snd (executeExit es pm position price ev now))"
proof -
  let ?p1 = "executePartialExit pm (id_p position) price now"
  have s1: "wellFormed ?p1 \<and> statusAdvances pm ?p1" by (rule executePartialExit_step [OF assms])
  have s2: "wellFormed (closePosition ?p1 (id_p position) price r now)
            \<and> statusAdvances pm (closePosition ?p1 (id_p position) price r now)" for r
    using closePosition_step [of ?p1 "id_p position" price r now] s1 statusAdvances_trans by blast
  have s3: "wellFormed (closePosition pm (id_p position) price r now)
            \<and> statusAdvances pm (closePosition pm (id_p position) price r now)" for r
    by (rule closePosition_step [OF assms])
  have "snd (executeExit es pm position price ev now) = pm
        \<or> snd (executeExit es pm position price ev now) = ?p1
        \<or> (\<exists>r. snd (executeExit es pm position price ev now) = closePosition ?p1 (id_p position) price r now)
        \<or> (\<exists>r. snd (executeExit es pm position price ev now) = closePosition pm (id_p position) price r now)"
    by (auto simp: executeExit_def Let_def split: option.splits)
  then show ?thesis using assms s1 s2 s3 statusAdvances_refl by auto
qed

lemma applyManagerCall_step:
  assumes "wellFormed (snd s)" and "freshIds s [c]"
  shows "wellFormed (snd (applyManagerCall s c)) \<and> statusAdvances (snd s) (snd (applyManagerCall s c))"
proof -
  obtain es pm where s: "s = (es, pm)" by (cases s)
  show ?thesis
  proof (cases c)
    case (OpenPosition tok price scr newId now)
    then show ?thesis using assms s openPosition_step [of pm newId tok price scr now] by simp
  next
    case (ExecutePartialExit pid price now)
    then show ?thesis using assms s executePartialExit_step [of pm pid price now] by simp
  next
    case (ClosePosition pid price rsn now)
    then show ?thesis using assms s closePosition_step [of pm pid price rsn now] by simp
  next
    case (EvaluateExit position price metrics tracker now)
    then show ?thesis using assms s evaluateExit_step [of pm es position price metrics tracker now] by simp
  next
    case (ExecuteExit position price evaluation now)
    then show ?thesis using assms s executeExit_step [of pm es position price evaluation now] by simp
  qed
qed

lemma run_step:
  "wellFormed (snd s) \<Longrightarrow> freshIds s calls \<Longrightarrow>
   wellFormed (snd (foldl applyManagerCall s calls))
   \<and> statusAdvances (snd s) (snd (foldl applyManagerCall s calls))"
proof (induction calls arbitrary: s)
  case Nil
  then show ?case by (simp add: statusAdvances_refl)
next
  case (Cons c calls)
  have f1: "freshIds s [c]" using Cons.prems(2) by simp
  have f2: "freshIds (applyManagerCall s c) calls" using Cons.prems(2) by simp
  note one = applyManagerCall_step [OF Cons.prems(1) f1]
  from Cons.IH [OF conjunct1 [OF one] f2] one show ?case
    using statusAdvances_trans by auto
qed

lemma freshIds_append:
  "freshIds s (pre @ post) \<longleftrightarrow> freshIds s pre \<and> freshIds (foldl applyManagerCall s pre) post"
  by (induction pre arbitrary: s) auto

lemma closed_terminal:
  assumes "statusOf pm pid = Some StatusClosed"
  shows "executePartialExit pm pid price now = pm \<and> closePosition pm pid price rsn now = pm"
  using assms
  by (auto simp: statusOf_def executePartialExit_def closePosition_def split: option.splits)

lemma openPosition_existing:
  assumes "getPositionByToken pm tok = Some e" and "status e \<noteq> StatusClosed"
  shows "openPosition pm tok price scr newId now = (e, pm)"
  using assms
  by (auto simp: getPositionByToken_def openPosition_def Let_def split: option.splits if_splits)

text \<open>
  C5. Along every run of \<open>openPosition\<close>, \<open>executePartialExit\<close>, \<open>closePosition\<close> and
  exit-evaluation calls (ids of new positions being fresh, from a well-formed manager
  state), between any two points of the run no position's status moves backwards along
  open, partial, closed; once the status of a position is closed, \<open>executePartialExit\<close>
  and \<open>closePosition\<close> leave the manager state unchanged; and \<open>openPosition\<close> for a token
  that has a non-closed position returns that position and creates nothing.
\<close>

theorem status_monotonic_closed_terminal:
  "(wellFormed pm \<and> freshIds (es, pm) (pre @ post) \<longrightarrow>
      wellFormed (snd (foldl applyManagerCall (es, pm) (pre @ post)))
      \<and> statusAdvances (snd (foldl applyManagerCall (es, pm) pre))
                       (snd (foldl applyManagerCall (es, pm) (pre @ post))))
   \<and> (statusOf pm pid = Some StatusClosed \<longrightarrow>
        executePartialExit pm pid price now = pm \<and> closePosition pm pid price rsn now = pm)
   \<and> (getPositionByToken pm tok = Some e \<and> status e \<noteq> StatusClosed \<longrightarrow>
        openPosition pm tok price' scr newId now' = (e, pm))"
proof (intro conjI impI)
  assume a: "wellFormed pm \<and> freshIds (es, pm) (pre @ post)"
  then have f: "freshIds (es, pm) pre" "freshIds (foldl applyManagerCall (es, pm) pre) post"
    by (simp_all add: freshIds_append)
  have w: "wellFormed (snd (foldl applyManagerCall (es, pm) pre))"
    using run_step [of "(es, pm)" pre] a f(1) by simp
  from run_step [OF w f(2)]
  show "wellFormed (snd (foldl applyManagerCall (es, pm) (pre @ post)))"
    and "statusAdvances (snd (foldl applyManagerCall (es, pm) pre))
                       (snd (foldl applyManagerCall (es, pm) (pre @ post)))"
    by simp_all
next
  assume "statusOf pm pid = Some StatusClosed"
  then show "executePartialExit pm pid price now = pm" "closePosition pm pid price rsn now = pm"
    using closed_terminal by blast+
next
  assume "getPositionByToken pm tok = Some e \<and> status e \<noteq> StatusClosed"
  then show "openPosition pm tok price' scr newId now' = (e, pm)"
    using openPosition_existing by blast
qed

lemma ex_run_pre:
  "foldl applyManagerCall (Map.empty, newPositionManager) ex_calls_pre =
     (Map.empty,
      \<lparr>positions = [(''pos_1'', ex_position\<lparr>remainingSizeSOL := 1 / 2, partialExitTimestamp := Some 1000,
                                  partialExitPrice := Some (3 / 10), realizedPnL := 1,
                                  status := StatusPartial\<rparr>)],
       closedPositions = [], tokenToPosition = [''T'' \<mapsto> ''pos_1'']\<rparr>)"
  by (simp add: ex_calls_pre_def newPositionManager_def openPosition_def executePartialExit_def
      entry_positionSizeSOL_def exit_partialExitPercent_def ex_position_def Let_def)

lemma ex_run_all:
  "foldl applyManagerCall (Map.empty, newPositionManager) (ex_calls_pre @ ex_calls_post) =
     (Map.empty,
      \<lparr>positions = [],
       closedPositions = [ex_position\<lparr>remainingSizeSOL := 0, partialExitTimestamp := Some 1000,
                                  partialExitPrice := Some (3 / 10), exitTimestamp := Some 2000,
                                  exitPrice := Some (2 / 10), exitReason := Some no_activity_60s,
                                  realizedPnL := 3 / 2, status := StatusClosed\<rparr>],
       tokenToPosition = Map.empty\<rparr>)"
  by (simp add: ex_run_pre ex_calls_post_def closePosition_def executePartialExit_def Let_def)
     (simp add: ex_position_def)

lemma ex_fresh: "freshIds (Map.empty, newPositionManager) (ex_calls_pre @ ex_calls_post)"
  by (simp add: freshIds_append ex_run_pre) (simp add: ex_calls_pre_def ex_calls_post_def knownIds_def newPositionManager_def)

theorem status_monotonic_closed_terminal_witness:
  "wellFormed newPositionManager
   \<and> freshIds (Map.empty, newPositionManager) (ex_calls_pre @ ex_calls_post)
   \<and> statusOf (snd (foldl applyManagerCall (Map.empty, newPositionManager) ex_calls_pre)) ''pos_1''
        = Some StatusPartial
   \<and> statusOf (snd (foldl applyManagerCall (Map.empty, newPositionManager) (ex_calls_pre @ ex_calls_post))) ''pos_1''
        = Some StatusClosed
   \<and> statusAdvances (snd (foldl applyManagerCall (Map.empty, newPositionManager) ex_calls_pre))
                    (snd (foldl applyManagerCall (Map.empty, newPositionManager) (ex_calls_pre @ ex_calls_post)))
   \<and> executePartialExit
        (snd (foldl applyManagerCall (Map.empty, newPositionManager) (ex_calls_pre @ ex_calls_post)))
        ''pos_1'' 0.5 3000
        = snd (foldl applyManagerCall (Map.empty, newPositionManager) (ex_calls_pre @ ex_calls_post))
   \<and> getPositionByToken ex_manager ''T'' = Some ex_position
   \<and> status ex_position = StatusOpen
   \<and> openPosition ex_manager ''T'' 0.5 30 ''pos_2'' 5000 = (ex_position, ex_manager)"
proof -
  let ?pre = "snd (foldl applyManagerCall (Map.empty, newPositionManager) ex_calls_pre)"
  let ?all = "snd (foldl applyManagerCall (Map.empty, newPositionManager) (ex_calls_pre @ ex_calls_post))"
  have w: "wellFormed newPositionManager" by (simp add: wellFormed_def newPositionManager_def)
  have f: "freshIds (Map.empty, newPositionManager) (ex_calls_pre @ ex_calls_post)" by (rule ex_fresh)
  have s1: "statusOf ?pre ''pos_1'' = Some StatusPartial"
    unfolding ex_run_pre by (simp add: statusOf_def)
  have s2: "statusOf ?all ''pos_1'' = Some StatusClosed"
    unfolding ex_run_all by (simp add: statusOf_def ex_position_def)
  have g: "getPositionByToken ex_manager ''T'' = Some ex_position"
    by (simp add: getPositionByToken_def ex_manager_def)
  have o: "status ex_position = StatusOpen" by (simp add: ex_position_def)
  note thm1 = status_monotonic_closed_terminal [of newPositionManager Map.empty ex_calls_pre ex_calls_post
      "''pos_1''" 0 0 no_activity_60s "''T''" ex_position 0 0 "''pos_2''" 0]
  note thm2 = status_monotonic_closed_terminal [of ?all Map.empty "[]" "[]"
      "''pos_1''" "0.5" 3000 no_activity_60s "''T''" ex_position 0 0 "''pos_2''" 0]
  note thm3 = status_monotonic_closed_terminal [of ex_manager Map.empty "[]" "[]"
      "''pos_1''" 0 0 no_activity_60s "''T''" ex_position "0.5" 30 "''pos_2''" 5000]
  have a: "statusAdvances ?pre ?all" using thm1 w f by blast
  have b: "executePartialExit ?all ''pos_1'' 0.5 3000 = ?all" using thm2 s2 by blast
  have c: "openPosition ex_manager ''T'' 0.5 30 ''pos_2'' 5000 = (ex_position, ex_manager)"
    using thm3 g o by simp
  show ?thesis using w f s1 s2 a b g o c by blast
qed

subsection \<open>Buys above the largest-buy ceiling in the pipeline\<close>






text \<open>
  The same holds along every run of the engine: the quick filter keeps every buy above the
  ceiling out of the registry.
\<close>

lemma noLargeBuy_iff: "noLargeBuy st \<longleftrightarrow> (\<forall>(k, t) \<in> set (tokenRegistry st). smallBuys t)"
  by (simp add: noLargeBuy_def smallBuys_def)

lemma smallBuys_addTransaction:
  "smallBuys t \<Longrightarrow> solAmount tx \<le> filters_maxLargestBuy \<Longrightarrow> smallBuys (addTransaction t tx now)"
  by (auto simp: smallBuys_def addTransaction_def add_def evictOld_def Let_def)

lemma smallBuys_newTokenTracker:
  "solAmount tx \<le> filters_maxLargestBuy \<Longrightarrow> smallBuys (newTokenTracker addr tx now)"
  by (auto simp: smallBuys_def newTokenTracker_def addTransaction_def add_def evictOld_def
      newMultiWindowBuffer_def Let_def)

lemma smallBuys_drop: "smallBuys t \<Longrightarrow> smallBuys (drop_t t rsn)"
  by (simp add: smallBuys_def drop_t_def)

lemma noLargeBuy_update:
  "noLargeBuy st \<Longrightarrow> smallBuys t \<Longrightarrow>
   noLargeBuy (st\<lparr>tokenRegistry := AList.update k t (tokenRegistry st)\<rparr>)"
  using set_update_subset [of k t "tokenRegistry st"] by (auto simp: noLargeBuy_iff)

lemma noLargeBuy_registry:
  "tokenRegistry st' = tokenRegistry st \<Longrightarrow> noLargeBuy st' = noLargeBuy st"
  by (simp add: noLargeBuy_def)

lemma tryEntry_registry:
  "tokenRegistry (snd (tryEntry st tracker scr sig m newId now)) = tokenRegistry st"
  by (auto simp: tryEntry_def Let_def split: option.splits prod.splits)

lemma evaluateForEntry_noLargeBuy:
  assumes "noLargeBuy st" and "smallBuys tracker"
  shows "noLargeBuy (evaluateForEntry st tracker newId now)"
proof -
  have "evaluateForEntry st tracker newId now = st
        \<or> (\<exists>rsn. evaluateForEntry st tracker newId now =
               st\<lparr>tokenRegistry := AList.update (tokenAddress_tr tracker) (drop_t tracker rsn) (tokenRegistry st)\<rparr>)
        \<or> tokenRegistry (evaluateForEntry st tracker newId now) = tokenRegistry st"
    by (auto simp: evaluateForEntry_def tryEntry_registry Let_def split: option.splits)
  then show ?thesis
  proof (elim disjE exE)
    assume "evaluateForEntry st tracker newId now = st"
    then show ?thesis using assms(1) by simp
  next
    fix rsn
    assume "evaluateForEntry st tracker newId now =
               st\<lparr>tokenRegistry := AList.update (tokenAddress_tr tracker) (drop_t tracker rsn) (tokenRegistry st)\<rparr>"
    then show ?thesis
      using noLargeBuy_update [OF assms(1) smallBuys_drop [OF assms(2)]] by simp
  next
    assume "tokenRegistry (evaluateForEntry st tracker newId now) = tokenRegistry st"
    then show ?thesis using assms(1) noLargeBuy_registry by blast
  qed
qed

lemma monitorPosition_registry:
  "tokenRegistry (monitorPosition st position tracker tx now) = tokenRegistry st"
  by (auto simp: monitorPosition_def Let_def split: prod.splits)

lemma checkStalePosition_registry:
  "tokenRegistry (checkStalePosition now st position) = tokenRegistry st"
  by (auto simp: checkStalePosition_def Let_def split: option.splits prod.splits)

lemma checkStalePositions_registry:
  "tokenRegistry (checkStalePositions st now) = tokenRegistry st"
proof -
  have "tokenRegistry (foldl (checkStalePosition now) s ps) = tokenRegistry s" for s ps
    by (induction ps arbitrary: s) (simp_all add: checkStalePosition_registry)
  then show ?thesis by (simp add: checkStalePositions_def)
qed

lemma processTransaction_noLargeBuy:
  assumes "noLargeBuy st"
  shows "noLargeBuy (processTransaction st tx newId now)"
proof (cases "solAmount tx > filters_maxLargestBuy")
  case True
  then show ?thesis using assms
    by (simp add: processTransaction_quick_filtered noLargeBuy_def)
next
  case False
  then have le: "solAmount tx \<le> filters_maxLargestBuy" by simp
  let ?st0 = "st\<lparr>processedTxCount := processedTxCount st + 1\<rparr>"
  obtain tracker trackers where r: "TokenRegistry_processTransaction (tokenRegistry st) tx now = (tracker, trackers)"
    by (cases "TokenRegistry_processTransaction (tokenRegistry st) tx now") auto
  have tr: "smallBuys tracker \<and> trackers = AList.update (tokenAddress tx) tracker (tokenRegistry st)"
  proof (cases "map_of (tokenRegistry st) (tokenAddress tx)")
    case None
    then show ?thesis using r le
      by (auto simp: TokenRegistry_processTransaction_def Let_def smallBuys_newTokenTracker)
  next
    case (Some t)
    then have "smallBuys t" using assms by (auto simp: noLargeBuy_iff dest!: map_of_SomeD)
    then show ?thesis using r le Some
      by (auto simp: TokenRegistry_processTransaction_def Let_def smallBuys_addTransaction)
  qed
  let ?st1 = "?st0\<lparr>tokenRegistry := trackers\<rparr>"
  have n0: "noLargeBuy ?st0" using assms by (simp add: noLargeBuy_def)
  have n1: "noLargeBuy ?st1"
    using noLargeBuy_update [OF n0, of tracker "tokenAddress tx"] tr by simp
  have "processTransaction st tx newId now = ?st1
        \<or> (\<exists>p. processTransaction st tx newId now = monitorPosition ?st1 p tracker tx now)
        \<or> processTransaction st tx newId now = evaluateForEntry ?st1 tracker newId now"
    using False r
    by (auto simp: processTransaction_def quickFilterTransaction_def Let_def split: option.splits)
  then show ?thesis
  proof (elim disjE exE)
    assume "processTransaction st tx newId now = ?st1"
    then show ?thesis using n1 by simp
  next
    fix p
    assume "processTransaction st tx newId now = monitorPosition ?st1 p tracker tx now"
    then show ?thesis
      using n1 noLargeBuy_registry [OF monitorPosition_registry [of ?st1 p tracker tx now]] by simp
  next
    assume "processTransaction st tx newId now = evaluateForEntry ?st1 tracker newId now"
    then show ?thesis
      using evaluateForEntry_noLargeBuy [OF n1, of tracker newId now] tr by simp
  qed
qed

lemma recalculateScores_noLargeBuy:
  assumes "noLargeBuy st"
  shows "noLargeBuy (recalculateScores st genId now)"
proof -
  let ?body = "\<lambda>st tracker.
                        if dropped tracker then st
                        else if hasOpenPosition (positionManager st) (tokenAddress_tr tracker) then st
                        else evaluateForEntry st tracker (genId (tokenAddress_tr tracker)) now"
  have fold: "noLargeBuy s \<Longrightarrow> (\<forall>t \<in> set ts. smallBuys t) \<Longrightarrow> noLargeBuy (foldl ?body s ts)" for s ts
  proof (induction ts arbitrary: s)
    case Nil
    then show ?case by simp
  next
    case (Cons t ts)
    have "noLargeBuy (?body s t)"
      using Cons.prems evaluateForEntry_noLargeBuy [of s t] by simp
    then show ?case using Cons by simp
  qed
  have act: "\<forall>t \<in> set (getActiveTrackers (tokenRegistry st) now). smallBuys t"
    using assms by (auto simp: getActiveTrackers_def noLargeBuy_iff)
  have "noLargeBuy (foldl ?body st (getActiveTrackers (tokenRegistry st) now))"
    by (rule fold [OF assms act])
  then show ?thesis
    using noLargeBuy_registry [OF checkStalePositions_registry]
    by (simp add: recalculateScores_def Let_def)
qed

text \<open>No reachable state has recorded a buy above the ceiling.\<close>

lemma reachable_noLargeBuy: "reachable st \<Longrightarrow> noLargeBuy st"
proof (induction rule: reachable.induct)
  case start
  show ?case by (simp add: noLargeBuy_def newSignalEngine_def)
next
  case (event st tx newId now)
  then show ?case by (simp add: processTransaction_noLargeBuy)
next
  case (tick st genId now)
  then show ?case by (simp add: recalculateScores_noLargeBuy)
qed

lemma foldl_max_le: "a \<le> (c::real) \<Longrightarrow> (\<forall>x \<in> set xs. x \<le> c) \<Longrightarrow> foldl max a xs \<le> c"
  by (induction xs arbitrary: a) auto

text \<open>
  Hence the largest-buy metric of a tracked token never exceeds the ceiling, and the
  largest-buy check of the filter stage never fails in a running engine.
\<close>

lemma reachable_largestBuy:
  assumes "reachable st" and "(k, t) \<in> set (tokenRegistry st)"
  shows "largestBuy (calculateMetrics t now) \<le> filters_maxLargestBuy"
proof -
  have sb: "\<forall>tx \<in> set (transactions (buffer t)). solAmount tx \<le> filters_maxLargestBuy"
    using reachable_noLargeBuy [OF assms(1)] assms(2) by (auto simp: noLargeBuy_def)
  let ?txs = "getWindow (buffer t) windows_long now"
  have w: "\<forall>x \<in> set (map solAmount ?txs). x \<le> filters_maxLargestBuy"
    using sb by (auto simp: getWindow_def)
  show ?thesis
  proof (cases "?txs = []")
    case True
    then show ?thesis
      by (simp add: calculateMetrics_def getBuySizeStats_def Let_def filters_maxLargestBuy_def)
  next
    case False
    then have ne: "map solAmount ?txs \<noteq> []" by simp
    have "hd (map solAmount ?txs) \<le> filters_maxLargestBuy"
      using w ne hd_in_set by blast
    moreover have "\<forall>x \<in> set (tl (map solAmount ?txs)). x \<le> filters_maxLargestBuy"
      using w ne by (meson list.set_sel(2))
    ultimately have "foldl max (hd (map solAmount ?txs)) (tl (map solAmount ?txs)) \<le> filters_maxLargestBuy"
      by (rule foldl_max_le)
    then show ?thesis using False
      by (simp add: calculateMetrics_def getBuySizeStats_def Let_def)
  qed
qed

lemma reachable_no_largest_buy_reason:
  assumes "reachable st" and "(k, t) \<in> set (tokenRegistry st)"
  shows "\<not> fst (hd (filterChecks t (calculateMetrics t now)))"
  using reachable_largestBuy [OF assms, of now] by (simp add: filterChecks_def)

end
